theory Spec2Isabelle
  imports Main "HOL-Library.Word"
begin

section \<open>The interop input stream of the binary module\<close>

text \<open>
  A shallow embedding of \<^verbatim>\<open>interop_input_stream.cpp\<close>
  (namespace \<^verbatim>\<open>ignite::impl::interop\<close>). An \<^verbatim>\<open>int32_t\<close> is a \<open>32 word\<close>:
  \<open>+\<close> and \<open>-\<close> wrap around modulo \<open>2 ^ 32\<close>, \<open>sint\<close> reads the two's complement
  value, and every comparison of the source, being a comparison of signed integers, is a
  comparison of \<open>sint\<close> values.
\<close>

subsection \<open>Memory\<close>

text \<open>
  The stream reads through the raw pointer \<^verbatim>\<open>data\<close>. Addresses are integers and the
  memory of the process is a function from addresses to bytes, together with the byte
  order of the host, which decides what a \<^verbatim>\<open>reinterpret_cast\<close> of a byte pointer
  to a wider integer type reads.
\<close>

type_synonym addr = int

datatype endianness = LittleEndian | BigEndian

record machine =
  bytes :: "addr \<Rightarrow> 8 word"
  byte_order :: endianness

fun le_word :: "8 word list \<Rightarrow> 'a::len word" where
  "le_word [] = 0"
| "le_word (b # bs) = ucast b + push_bit 8 (le_word bs)"

fun from_bytes :: "endianness \<Rightarrow> 8 word list \<Rightarrow> 'a::len word" where
  "from_bytes LittleEndian bs = le_word bs"
| "from_bytes BigEndian bs = le_word (rev bs)"

text \<open>\<^verbatim>\<open>memcpy(dest, src, n)\<close>: the \<open>n\<close> bytes found from address \<open>a\<close> on.\<close>

definition memcpy :: "machine \<Rightarrow> addr \<Rightarrow> nat \<Rightarrow> 8 word list" where
  "memcpy m a n = map (\<lambda>i. bytes m (a + int i)) [0..<n]"

text \<open>\<^verbatim>\<open>*reinterpret_cast<const type*>(p)\<close> for an integer type of \<open>LENGTH('a)\<close> bits.\<close>

definition load :: "machine \<Rightarrow> addr \<Rightarrow> 'a::len word" where
  "load m a = from_bytes (byte_order m) (memcpy m a (LENGTH('a) div 8))"

subsection \<open>The memory owner and the stream\<close>

text \<open>
  Modelled from the spec: the class \<^verbatim>\<open>InteropMemory\<close> is declared in a header that is
  not part of the source at hand. The stream calls \<^verbatim>\<open>Data()\<close>, the base address of the
  bytes, \<^verbatim>\<open>Length()\<close>, their length as an \<^verbatim>\<open>int32_t\<close>, and \<^verbatim>\<open>PointerLong()\<close>, the
  identity of the owner that the error messages print; the three values are the fields
  of a record. The stream keeps a pointer to the owner: the field \<open>mem\<close> is the owner as
  it is when the stream looks at it, and a change made to the owner from outside is an
  update of that field.
\<close>

record InteropMemory =
  Data :: addr
  Length :: "32 word"
  PointerLong :: "64 word"

record InteropInputStream =
  mem :: InteropMemory
  data :: addr
  len :: "32 word"
  pos :: "32 word"

subsection \<open>Errors\<close>

text \<open>
  Modelled from the spec: the macros \<^verbatim>\<open>IGNITE_ERROR_FORMATTED_3\<close> and
  \<^verbatim>\<open>IGNITE_ERROR_FORMATTED_4\<close> of \<^verbatim>\<open>ignite_error.h\<close> are not part of the
  source at hand. They throw an \<^verbatim>\<open>IgniteError\<close> made of the error code, the message
  and the named diagnostic values. A throwing operation returns \<open>Inl\<close> of that error.
\<close>

datatype error_code = IGNITE_ERR_MEMORY

datatype IgniteError =
  IgniteError (err_code: error_code) (err_msg: string) (err_fields: "(string \<times> int) list")

text \<open>
  The source has one error code and three messages. The specification names two kinds of
  failure, told apart by the message.
\<close>

definition InsufficientData :: "IgniteError \<Rightarrow> bool" where
  "InsufficientData e \<longleftrightarrow>
     err_code e = IGNITE_ERR_MEMORY \<and> err_msg e = ''Not enough data in the stream''"

definition OutOfBounds :: "IgniteError \<Rightarrow> bool" where
  "OutOfBounds e \<longleftrightarrow>
     err_code e = IGNITE_ERR_MEMORY \<and>
     (err_msg e = ''Requested input stream len is greater than memories length'' \<or>
      err_msg e = ''Requested input stream position is out of bounds'')"

subsection \<open>Construction\<close>

definition new_InteropInputStream :: "InteropMemory \<Rightarrow> InteropInputStream" where
  "new_InteropInputStream mm =
     \<lparr>mem = mm, data = Data mm, len = Length mm, pos = 0\<rparr>"

definition new_InteropInputStream_len ::
  "InteropMemory \<Rightarrow> 32 word \<Rightarrow> IgniteError + InteropInputStream" where
  "new_InteropInputStream_len mm l =
     (if sint (Length mm) < sint l
      then Inl (IgniteError IGNITE_ERR_MEMORY
             ''Requested input stream len is greater than memories length''
             [(''memPtr'', sint (PointerLong mm)), (''len'', sint l),
              (''memLen'', sint (Length mm))])
      else Inr \<lparr>mem = mm, data = Data mm, len = l, pos = 0\<rparr>)"

subsection \<open>The private helpers\<close>

definition EnsureEnoughData :: "InteropInputStream \<Rightarrow> 32 word \<Rightarrow> IgniteError + unit" where
  "EnsureEnoughData s cnt =
     (if sint cnt \<le> sint (len s - pos s) then Inr ()
      else Inl (IgniteError IGNITE_ERR_MEMORY ''Not enough data in the stream''
             [(''memPtr'', sint (PointerLong (mem s))), (''len'', sint (len s)),
              (''pos'', sint (pos s)), (''requested'', sint cnt)]))"

definition Shift :: "InteropInputStream \<Rightarrow> 32 word \<Rightarrow> InteropInputStream" where
  "Shift s cnt = s\<lparr>pos := pos s + cnt\<rparr>"

text \<open>
  Every operation returns the stream as it is when the operation returns or throws.

  \<^verbatim>\<open>CopyAndShift(dest, off, cnt)\<close>: the result holds the bytes that \<^verbatim>\<open>memcpy\<close>
  stores from \<^verbatim>\<open>dest + off\<close> on. \<^verbatim>\<open>memcpy\<close> takes its count as a \<^verbatim>\<open>size_t\<close>,
  so a \<open>cnt\<close> that is not negative is the number of bytes copied, and a negative \<open>cnt\<close>
  that has passed \<^verbatim>\<open>EnsureEnoughData\<close> is converted to a count of at least
  \<open>2 ^ 64 - 2 ^ 31\<close> bytes (for a \<^verbatim>\<open>size_t\<close> of 64 bits). No process holds that many
  bytes: the copy leaves the mapped memory and the process is killed inside
  \<^verbatim>\<open>memcpy\<close>, before \<^verbatim>\<open>Shift\<close>. That outcome, in which the call neither returns nor
  throws, is \<open>None\<close>.
\<close>

type_synonym array_result = "((IgniteError + 8 word list) \<times> InteropInputStream) option"

definition CopyAndShift ::
  "machine \<Rightarrow> InteropInputStream \<Rightarrow> 32 word \<Rightarrow> array_result" where
  "CopyAndShift m s cnt =
     (case EnsureEnoughData s cnt of
        Inl e \<Rightarrow> Some (Inl e, s)
      | Inr _ \<Rightarrow>
          if sint cnt < 0 then None
          else Some (Inr (memcpy m (data s + sint (pos s)) (nat (sint cnt))), Shift s cnt))"

text \<open>The macro \<^verbatim>\<open>IGNITE_INTEROP_IN_READ(type, len)\<close>.\<close>

definition IGNITE_INTEROP_IN_READ ::
  "machine \<Rightarrow> InteropInputStream \<Rightarrow> 32 word \<Rightarrow> (IgniteError + 'a::len word) \<times> InteropInputStream" where
  "IGNITE_INTEROP_IN_READ m s l =
     (case EnsureEnoughData s l of
        Inl e \<Rightarrow> (Inl e, s)
      | Inr _ \<Rightarrow> (Inr (load m (data s + sint (pos s))), Shift s l))"

text \<open>The macro \<^verbatim>\<open>IGNITE_INTEROP_IN_READ_ARRAY(len, shift)\<close>.\<close>

definition IGNITE_INTEROP_IN_READ_ARRAY ::
  "machine \<Rightarrow> InteropInputStream \<Rightarrow> 32 word \<Rightarrow> nat \<Rightarrow> array_result" where
  "IGNITE_INTEROP_IN_READ_ARRAY m s l shift = CopyAndShift m s (push_bit shift l)"

subsection \<open>Sequential reads\<close>

definition ReadInt8 ::
  "machine \<Rightarrow> InteropInputStream \<Rightarrow> (IgniteError + 8 word) \<times> InteropInputStream" where
  "ReadInt8 m s = IGNITE_INTEROP_IN_READ m s 1"

definition ReadInt16 ::
  "machine \<Rightarrow> InteropInputStream \<Rightarrow> (IgniteError + 16 word) \<times> InteropInputStream" where
  "ReadInt16 m s = IGNITE_INTEROP_IN_READ m s 2"

definition ReadUInt16 ::
  "machine \<Rightarrow> InteropInputStream \<Rightarrow> (IgniteError + 16 word) \<times> InteropInputStream" where
  "ReadUInt16 m s = IGNITE_INTEROP_IN_READ m s 2"

definition ReadInt32 ::
  "machine \<Rightarrow> InteropInputStream \<Rightarrow> (IgniteError + 32 word) \<times> InteropInputStream" where
  "ReadInt32 m s = IGNITE_INTEROP_IN_READ m s 4"

definition ReadInt64 ::
  "machine \<Rightarrow> InteropInputStream \<Rightarrow> (IgniteError + 64 word) \<times> InteropInputStream" where
  "ReadInt64 m s = IGNITE_INTEROP_IN_READ m s 8"

text \<open>
  \<^verbatim>\<open>ReadFloat\<close> and \<^verbatim>\<open>ReadDouble\<close> read an integer and return its bits through a
  union; the result here is that bit pattern.
\<close>

definition ReadFloat ::
  "machine \<Rightarrow> InteropInputStream \<Rightarrow> (IgniteError + 32 word) \<times> InteropInputStream" where
  "ReadFloat m s = ReadInt32 m s"

definition ReadDouble ::
  "machine \<Rightarrow> InteropInputStream \<Rightarrow> (IgniteError + 64 word) \<times> InteropInputStream" where
  "ReadDouble m s = ReadInt64 m s"

definition ReadBool ::
  "machine \<Rightarrow> InteropInputStream \<Rightarrow> (IgniteError + bool) \<times> InteropInputStream" where
  "ReadBool m s =
     (case ReadInt8 m s of
        (Inl e, s') \<Rightarrow> (Inl e, s')
      | (Inr b, s') \<Rightarrow> (Inr (sint b = 1), s'))"

text \<open>
  The loop of \<^verbatim>\<open>ReadBoolArray\<close> runs \<open>len\<close> times, and not at all for a \<open>len\<close>
  below 1; the first argument counts the iterations that are left. A read that throws
  ends the loop, and the stream stays where that read left it.
\<close>

fun ReadBoolArray_loop ::
  "machine \<Rightarrow> nat \<Rightarrow> InteropInputStream \<Rightarrow> (IgniteError + bool list) \<times> InteropInputStream" where
  "ReadBoolArray_loop m 0 s = (Inr [], s)"
| "ReadBoolArray_loop m (Suc n) s =
     (case ReadBool m s of
        (Inl e, s') \<Rightarrow> (Inl e, s')
      | (Inr b, s') \<Rightarrow>
          (case ReadBoolArray_loop m n s' of
             (Inl e, s'') \<Rightarrow> (Inl e, s'')
           | (Inr bs, s'') \<Rightarrow> (Inr (b # bs), s'')))"

definition ReadBoolArray ::
  "machine \<Rightarrow> InteropInputStream \<Rightarrow> 32 word \<Rightarrow> (IgniteError + bool list) \<times> InteropInputStream" where
  "ReadBoolArray m s l = ReadBoolArray_loop m (nat (sint l)) s"

subsection \<open>Positional reads\<close>

definition ReadInt8_at ::
  "machine \<Rightarrow> InteropInputStream \<Rightarrow> 32 word \<Rightarrow> (IgniteError + 32 word) \<times> InteropInputStream" where
  "ReadInt8_at m s p =
     (let delta = p + 1 - pos s;
          res = (Inr (scast (load m (data s + sint p) :: 8 word)), s)
      in if 0 < sint delta
         then (case EnsureEnoughData s delta of Inl e \<Rightarrow> (Inl e, s) | Inr _ \<Rightarrow> res)
         else res)"

definition ReadInt16_at ::
  "machine \<Rightarrow> InteropInputStream \<Rightarrow> 32 word \<Rightarrow> (IgniteError + 32 word) \<times> InteropInputStream" where
  "ReadInt16_at m s p =
     (let delta = p + 2 - pos s;
          res = (Inr (scast (load m (data s + sint p) :: 16 word)), s)
      in if 0 < sint delta
         then (case EnsureEnoughData s delta of Inl e \<Rightarrow> (Inl e, s) | Inr _ \<Rightarrow> res)
         else res)"

definition ReadInt32_at ::
  "machine \<Rightarrow> InteropInputStream \<Rightarrow> 32 word \<Rightarrow> (IgniteError + 32 word) \<times> InteropInputStream" where
  "ReadInt32_at m s p =
     (let delta = p + 4 - pos s;
          res = (Inr (load m (data s + sint p) :: 32 word), s)
      in if 0 < sint delta
         then (case EnsureEnoughData s delta of Inl e \<Rightarrow> (Inl e, s) | Inr _ \<Rightarrow> res)
         else res)"

subsection \<open>Array reads\<close>

definition ReadInt8Array ::
  "machine \<Rightarrow> InteropInputStream \<Rightarrow> 32 word \<Rightarrow> array_result" where
  "ReadInt8Array m s l = IGNITE_INTEROP_IN_READ_ARRAY m s l 0"

definition ReadInt16Array ::
  "machine \<Rightarrow> InteropInputStream \<Rightarrow> 32 word \<Rightarrow> array_result" where
  "ReadInt16Array m s l = IGNITE_INTEROP_IN_READ_ARRAY m s l 1"

definition ReadUInt16Array ::
  "machine \<Rightarrow> InteropInputStream \<Rightarrow> 32 word \<Rightarrow> array_result" where
  "ReadUInt16Array m s l = IGNITE_INTEROP_IN_READ_ARRAY m s l 1"

definition ReadInt32Array ::
  "machine \<Rightarrow> InteropInputStream \<Rightarrow> 32 word \<Rightarrow> array_result" where
  "ReadInt32Array m s l = IGNITE_INTEROP_IN_READ_ARRAY m s l 2"

definition ReadInt64Array ::
  "machine \<Rightarrow> InteropInputStream \<Rightarrow> 32 word \<Rightarrow> array_result" where
  "ReadInt64Array m s l = IGNITE_INTEROP_IN_READ_ARRAY m s l 3"

definition ReadFloatArray ::
  "machine \<Rightarrow> InteropInputStream \<Rightarrow> 32 word \<Rightarrow> array_result" where
  "ReadFloatArray m s l = IGNITE_INTEROP_IN_READ_ARRAY m s l 2"

definition ReadDoubleArray ::
  "machine \<Rightarrow> InteropInputStream \<Rightarrow> 32 word \<Rightarrow> array_result" where
  "ReadDoubleArray m s l = IGNITE_INTEROP_IN_READ_ARRAY m s l 3"

subsection \<open>Position management\<close>

definition Remaining :: "InteropInputStream \<Rightarrow> 32 word" where
  "Remaining s = len s - pos s"

definition Position :: "InteropInputStream \<Rightarrow> 32 word" where
  "Position s = pos s"

definition Position_set ::
  "InteropInputStream \<Rightarrow> 32 word \<Rightarrow> (IgniteError + unit) \<times> InteropInputStream" where
  "Position_set s p =
     (if sint p \<le> sint (len s) then (Inr (), s\<lparr>pos := p\<rparr>)
      else (Inl (IgniteError IGNITE_ERR_MEMORY
              ''Requested input stream position is out of bounds''
              [(''memPtr'', sint (PointerLong (mem s))), (''len'', sint (len s)),
               (''pos'', sint p)]), s))"

definition Ignore :: "InteropInputStream \<Rightarrow> 32 word \<Rightarrow> InteropInputStream" where
  "Ignore s cnt = Shift s cnt"

definition Synchronize :: "InteropInputStream \<Rightarrow> InteropInputStream" where
  "Synchronize s = s\<lparr>data := Data (mem s), len := Length (mem s)\<rparr>"

text \<open>The standing invariant of the specification: \<open>0 \<le> position \<le> limit\<close>.\<close>

definition position_in_bounds :: "InteropInputStream \<Rightarrow> bool" where
  "position_in_bounds s \<longleftrightarrow> 0 \<le> sint (pos s) \<and> sint (pos s) \<le> sint (len s)"

section \<open>Properties\<close>

subsection \<open>Signed 32-bit arithmetic and the bytes that are read\<close>

lemma sint32_range: "- (2 ^ 31) \<le> sint (a :: 32 word) \<and> sint a < 2 ^ 31"
  using sint_ge [of a] sint_lt [of a] by simp

lemma sint32_sub_exact:
  "- (2 ^ 31) \<le> sint a - sint b \<Longrightarrow> sint a - sint b < 2 ^ 31 \<Longrightarrow>
   sint (a - b :: 32 word) = sint a - sint b"
  by (simp add: sint_word_ariths signed_take_bit_int_eq_self)

lemma sint32_add_exact:
  "- (2 ^ 31) \<le> sint a + sint b \<Longrightarrow> sint a + sint b < 2 ^ 31 \<Longrightarrow>
   sint (a + b :: 32 word) = sint a + sint b"
  by (simp add: sint_word_ariths signed_take_bit_int_eq_self)

text \<open>
  In a stream whose position is within its bounds the subtraction \<^verbatim>\<open>len - pos\<close> of
  the source does not overflow.
\<close>

lemma in_bounds_remaining:
  "position_in_bounds s \<Longrightarrow> sint (len s - pos s) = sint (len s) - sint (pos s)"
  unfolding position_in_bounds_def
  using sint32_range [of "len s"] sint32_range [of "pos s"]
  by (intro sint32_sub_exact) linarith+

lemma upt_sizes:
  "[0..<1] = [0::nat]" "[0..<2] = [0::nat, 1]" "[0..<4] = [0::nat, 1, 2, 3]"
  "[0..<8] = [0::nat, 1, 2, 3, 4, 5, 6, 7]"
  by (simp_all add: upt_conv_Cons)

lemma from_bytes_single: "from_bytes e [b] = (b :: 8 word)"
  by (cases e) simp_all

lemma load_byte: "(load m a :: 8 word) = bytes m a"
  by (simp add: load_def memcpy_def from_bytes_single)

lemma load_bytes:
  "(load m a :: 'a::len word) =
     from_bytes (byte_order m) (map (\<lambda>i. bytes m (a + int i)) [0..<LENGTH('a) div 8])"
  by (simp add: load_def memcpy_def)

subsection \<open>The reading macro\<close>

lemma IN_READ_fail:
  "sint (len s - pos s) < sint l \<Longrightarrow>
   \<exists>e. IGNITE_INTEROP_IN_READ m s l = (Inl e, s) \<and> InsufficientData e"
  by (simp add: IGNITE_INTEROP_IN_READ_def EnsureEnoughData_def InsufficientData_def)

lemma IN_READ_ok:
  "sint l \<le> sint (len s - pos s) \<Longrightarrow>
   IGNITE_INTEROP_IN_READ m s l =
     (Inr (load m (data s + sint (pos s))), s\<lparr>pos := pos s + l\<rparr>)"
  by (simp add: IGNITE_INTEROP_IN_READ_def EnsureEnoughData_def Shift_def)

lemma IN_READ_bytes:
  "sint l \<le> sint (len s - pos s) \<Longrightarrow>
   (IGNITE_INTEROP_IN_READ m s l :: (IgniteError + 'a::len word) \<times> InteropInputStream) =
     (Inr (from_bytes (byte_order m)
            (map (\<lambda>i. bytes m (data s + sint (pos s) + int i)) [0..<LENGTH('a) div 8])),
      s\<lparr>pos := pos s + l\<rparr>)"
  by (simp only: IN_READ_ok load_bytes)

lemma positional_check:
  "(case EnsureEnoughData s d of Inl e \<Rightarrow> (Inl e, s) | Inr _ \<Rightarrow> r) =
     (if sint d \<le> sint (len s - pos s) then r
      else (Inl (IgniteError IGNITE_ERR_MEMORY ''Not enough data in the stream''
             [(''memPtr'', sint (PointerLong (mem s))), (''len'', sint (len s)),
              (''pos'', sint (pos s)), (''requested'', sint d)]), s))"
  by (simp add: EnsureEnoughData_def)

subsection \<open>Sequential reads\<close>

text \<open>
  C1. Each of \<^verbatim>\<open>ReadInt8\<close>, \<^verbatim>\<open>ReadInt16\<close>, \<^verbatim>\<open>ReadUInt16\<close>, \<^verbatim>\<open>ReadInt32\<close> and
  \<^verbatim>\<open>ReadInt64\<close>, of size 1, 2, 2, 4 and 8 bytes: when \<^verbatim>\<open>len - pos\<close> is below the
  size, the read fails with the not-enough-data error and the stream is as before;
  otherwise it returns the integer that the bytes at the offsets \<open>pos, ..., pos + size - 1\<close>
  from \<^verbatim>\<open>data\<close> make up in the byte order of the host, and the position has moved on
  by the size. \<^verbatim>\<open>ReadInt16\<close> and \<^verbatim>\<open>ReadUInt16\<close> return the same 16 bits, which
  the one reads as a signed and the other as an unsigned number. The difference \<^verbatim>\<open>len - pos\<close> and the sum \<^verbatim>\<open>pos + size\<close> are those of
  \<^verbatim>\<open>int32_t\<close>; by \<open>in_bounds_remaining\<close> the difference is the exact one whenever
  the position is within the bounds of the stream.
\<close>

theorem sequential_read:
  "(sint (len s - pos s) < 1 \<longrightarrow>
      (\<exists>e. ReadInt8 m s = (Inl e, s) \<and> InsufficientData e))
   \<and> (1 \<le> sint (len s - pos s) \<longrightarrow>
      ReadInt8 m s =
        (Inr (from_bytes (byte_order m)
               (map (\<lambda>i. bytes m (data s + sint (pos s) + int i)) [0..<1])),
         s\<lparr>pos := pos s + 1\<rparr>))
   \<and> (sint (len s - pos s) < 2 \<longrightarrow>
      (\<exists>e. ReadInt16 m s = (Inl e, s) \<and> InsufficientData e) \<and>
      (\<exists>e. ReadUInt16 m s = (Inl e, s) \<and> InsufficientData e))
   \<and> (2 \<le> sint (len s - pos s) \<longrightarrow>
      ReadInt16 m s =
        (Inr (from_bytes (byte_order m)
               (map (\<lambda>i. bytes m (data s + sint (pos s) + int i)) [0..<2])),
         s\<lparr>pos := pos s + 2\<rparr>) \<and>
      ReadUInt16 m s =
        (Inr (from_bytes (byte_order m)
               (map (\<lambda>i. bytes m (data s + sint (pos s) + int i)) [0..<2])),
         s\<lparr>pos := pos s + 2\<rparr>))
   \<and> (sint (len s - pos s) < 4 \<longrightarrow>
      (\<exists>e. ReadInt32 m s = (Inl e, s) \<and> InsufficientData e))
   \<and> (4 \<le> sint (len s - pos s) \<longrightarrow>
      ReadInt32 m s =
        (Inr (from_bytes (byte_order m)
               (map (\<lambda>i. bytes m (data s + sint (pos s) + int i)) [0..<4])),
         s\<lparr>pos := pos s + 4\<rparr>))
   \<and> (sint (len s - pos s) < 8 \<longrightarrow>
      (\<exists>e. ReadInt64 m s = (Inl e, s) \<and> InsufficientData e))
   \<and> (8 \<le> sint (len s - pos s) \<longrightarrow>
      ReadInt64 m s =
        (Inr (from_bytes (byte_order m)
               (map (\<lambda>i. bytes m (data s + sint (pos s) + int i)) [0..<8])),
         s\<lparr>pos := pos s + 8\<rparr>))"
  unfolding ReadInt8_def ReadInt16_def ReadUInt16_def ReadInt32_def ReadInt64_def
  using IN_READ_fail [of s 1 m, where 'a = 8] IN_READ_fail [of s 2 m, where 'a = 16]
    IN_READ_fail [of s 4 m, where 'a = 32] IN_READ_fail [of s 8 m, where 'a = 64]
    IN_READ_bytes [of 1 s m, where 'a = 8] IN_READ_bytes [of 2 s m, where 'a = 16]
    IN_READ_bytes [of 4 s m, where 'a = 32] IN_READ_bytes [of 8 s m, where 'a = 64]
  by simp

theorem sequential_read_witness:
  "ReadInt8 \<lparr>bytes = (\<lambda>a. if 100 \<le> a \<and> a < 108 then word_of_int (a - 99) else 0), byte_order = LittleEndian\<rparr> \<lparr>mem = \<lparr>Data = 100, Length = 8, PointerLong = 7\<rparr>, data = 100, len = 8, pos = 0\<rparr> = (Inr 0x01, \<lparr>mem = \<lparr>Data = 100, Length = 8, PointerLong = 7\<rparr>, data = 100, len = 8, pos = 1\<rparr>)
   \<and> ReadInt16 \<lparr>bytes = (\<lambda>a. if 100 \<le> a \<and> a < 108 then word_of_int (a - 99) else 0), byte_order = LittleEndian\<rparr> \<lparr>mem = \<lparr>Data = 100, Length = 8, PointerLong = 7\<rparr>, data = 100, len = 8, pos = 0\<rparr> = (Inr 0x0201, \<lparr>mem = \<lparr>Data = 100, Length = 8, PointerLong = 7\<rparr>, data = 100, len = 8, pos = 2\<rparr>)
   \<and> ReadUInt16 \<lparr>bytes = (\<lambda>a. if 100 \<le> a \<and> a < 108 then word_of_int (a - 99) else 0), byte_order = LittleEndian\<rparr> \<lparr>mem = \<lparr>Data = 100, Length = 8, PointerLong = 7\<rparr>, data = 100, len = 8, pos = 0\<rparr> = (Inr 0x0201, \<lparr>mem = \<lparr>Data = 100, Length = 8, PointerLong = 7\<rparr>, data = 100, len = 8, pos = 2\<rparr>)
   \<and> ReadInt32 \<lparr>bytes = (\<lambda>a. if 100 \<le> a \<and> a < 108 then word_of_int (a - 99) else 0), byte_order = LittleEndian\<rparr> \<lparr>mem = \<lparr>Data = 100, Length = 8, PointerLong = 7\<rparr>, data = 100, len = 8, pos = 0\<rparr> = (Inr 0x04030201, \<lparr>mem = \<lparr>Data = 100, Length = 8, PointerLong = 7\<rparr>, data = 100, len = 8, pos = 4\<rparr>)
   \<and> ReadInt64 \<lparr>bytes = (\<lambda>a. if 100 \<le> a \<and> a < 108 then word_of_int (a - 99) else 0), byte_order = LittleEndian\<rparr> \<lparr>mem = \<lparr>Data = 100, Length = 8, PointerLong = 7\<rparr>, data = 100, len = 8, pos = 0\<rparr> = (Inr 0x0807060504030201, \<lparr>mem = \<lparr>Data = 100, Length = 8, PointerLong = 7\<rparr>, data = 100, len = 8, pos = 8\<rparr>)
   \<and> (\<exists>e. ReadInt8 \<lparr>bytes = (\<lambda>a. if 100 \<le> a \<and> a < 108 then word_of_int (a - 99) else 0), byte_order = LittleEndian\<rparr> \<lparr>mem = \<lparr>Data = 100, Length = 8, PointerLong = 7\<rparr>, data = 100, len = 8, pos = 8\<rparr> = (Inl e, \<lparr>mem = \<lparr>Data = 100, Length = 8, PointerLong = 7\<rparr>, data = 100, len = 8, pos = 8\<rparr>) \<and> InsufficientData e)
   \<and> (\<exists>e. ReadInt16 \<lparr>bytes = (\<lambda>a. if 100 \<le> a \<and> a < 108 then word_of_int (a - 99) else 0), byte_order = LittleEndian\<rparr> \<lparr>mem = \<lparr>Data = 100, Length = 8, PointerLong = 7\<rparr>, data = 100, len = 8, pos = 7\<rparr> = (Inl e, \<lparr>mem = \<lparr>Data = 100, Length = 8, PointerLong = 7\<rparr>, data = 100, len = 8, pos = 7\<rparr>) \<and> InsufficientData e)
   \<and> (\<exists>e. ReadUInt16 \<lparr>bytes = (\<lambda>a. if 100 \<le> a \<and> a < 108 then word_of_int (a - 99) else 0), byte_order = LittleEndian\<rparr> \<lparr>mem = \<lparr>Data = 100, Length = 8, PointerLong = 7\<rparr>, data = 100, len = 8, pos = 7\<rparr> = (Inl e, \<lparr>mem = \<lparr>Data = 100, Length = 8, PointerLong = 7\<rparr>, data = 100, len = 8, pos = 7\<rparr>) \<and> InsufficientData e)
   \<and> (\<exists>e. ReadInt32 \<lparr>bytes = (\<lambda>a. if 100 \<le> a \<and> a < 108 then word_of_int (a - 99) else 0), byte_order = LittleEndian\<rparr> \<lparr>mem = \<lparr>Data = 100, Length = 8, PointerLong = 7\<rparr>, data = 100, len = 8, pos = 7\<rparr> = (Inl e, \<lparr>mem = \<lparr>Data = 100, Length = 8, PointerLong = 7\<rparr>, data = 100, len = 8, pos = 7\<rparr>) \<and> InsufficientData e)
   \<and> (\<exists>e. ReadInt64 \<lparr>bytes = (\<lambda>a. if 100 \<le> a \<and> a < 108 then word_of_int (a - 99) else 0), byte_order = LittleEndian\<rparr> \<lparr>mem = \<lparr>Data = 100, Length = 8, PointerLong = 7\<rparr>, data = 100, len = 8, pos = 7\<rparr> = (Inl e, \<lparr>mem = \<lparr>Data = 100, Length = 8, PointerLong = 7\<rparr>, data = 100, len = 8, pos = 7\<rparr>) \<and> InsufficientData e)"
  using sequential_read [of "\<lparr>mem = \<lparr>Data = 100, Length = 8, PointerLong = 7\<rparr>, data = 100, len = 8, pos = 0\<rparr>" "\<lparr>bytes = (\<lambda>a. if 100 \<le> a \<and> a < 108 then word_of_int (a - 99) else 0), byte_order = LittleEndian\<rparr>"]
    sequential_read [of "\<lparr>mem = \<lparr>Data = 100, Length = 8, PointerLong = 7\<rparr>, data = 100, len = 8, pos = 7\<rparr>" "\<lparr>bytes = (\<lambda>a. if 100 \<le> a \<and> a < 108 then word_of_int (a - 99) else 0), byte_order = LittleEndian\<rparr>"]
    sequential_read [of "\<lparr>mem = \<lparr>Data = 100, Length = 8, PointerLong = 7\<rparr>, data = 100, len = 8, pos = 8\<rparr>" "\<lparr>bytes = (\<lambda>a. if 100 \<le> a \<and> a < 108 then word_of_int (a - 99) else 0), byte_order = LittleEndian\<rparr>"]
  by (simp add: upt_sizes)

subsection \<open>Positional reads\<close>

text \<open>
  C4. Each of \<^verbatim>\<open>ReadInt8(pos)\<close>, \<^verbatim>\<open>ReadInt16(pos)\<close> and \<^verbatim>\<open>ReadInt32(pos)\<close>, of
  size 1, 2 and 4, computes \<open>delta = p + size - pos\<close>. When \<open>delta\<close> is positive and
  \<^verbatim>\<open>len - pos\<close> is below it, the read fails with the not-enough-data error. In every
  other case, so in particular for every \<open>delta\<close> that is not positive, whatever the
  sign of \<open>p\<close>, nothing else is checked and the read returns the integer found at the
  offset \<open>p\<close> from \<^verbatim>\<open>data\<close>, widened to \<^verbatim>\<open>int32_t\<close> with its sign. The stream
  is the same afterwards in all cases.
\<close>

theorem positional_read:
  "(0 < sint (p + 1 - pos s) \<and> sint (len s - pos s) < sint (p + 1 - pos s) \<longrightarrow>
      (\<exists>e. ReadInt8_at m s p = (Inl e, s) \<and> InsufficientData e))
   \<and> (sint (p + 1 - pos s) \<le> 0 \<or> sint (p + 1 - pos s) \<le> sint (len s - pos s) \<longrightarrow>
      ReadInt8_at m s p =
        (Inr (scast (from_bytes (byte_order m)
                (map (\<lambda>i. bytes m (data s + sint p + int i)) [0..<1]) :: 8 word)), s))
   \<and> (0 < sint (p + 2 - pos s) \<and> sint (len s - pos s) < sint (p + 2 - pos s) \<longrightarrow>
      (\<exists>e. ReadInt16_at m s p = (Inl e, s) \<and> InsufficientData e))
   \<and> (sint (p + 2 - pos s) \<le> 0 \<or> sint (p + 2 - pos s) \<le> sint (len s - pos s) \<longrightarrow>
      ReadInt16_at m s p =
        (Inr (scast (from_bytes (byte_order m)
                (map (\<lambda>i. bytes m (data s + sint p + int i)) [0..<2]) :: 16 word)), s))
   \<and> (0 < sint (p + 4 - pos s) \<and> sint (len s - pos s) < sint (p + 4 - pos s) \<longrightarrow>
      (\<exists>e. ReadInt32_at m s p = (Inl e, s) \<and> InsufficientData e))
   \<and> (sint (p + 4 - pos s) \<le> 0 \<or> sint (p + 4 - pos s) \<le> sint (len s - pos s) \<longrightarrow>
      ReadInt32_at m s p =
        (Inr (from_bytes (byte_order m)
                (map (\<lambda>i. bytes m (data s + sint p + int i)) [0..<4])), s))"
  unfolding ReadInt8_at_def ReadInt16_at_def ReadInt32_at_def Let_def positional_check
  by (simp add: load_bytes InsufficientData_def)

theorem positional_read_witness:
  "ReadInt8_at \<lparr>bytes = (\<lambda>a. if 100 \<le> a \<and> a < 108 then word_of_int (a - 99) else 0), byte_order = LittleEndian\<rparr> \<lparr>mem = \<lparr>Data = 100, Length = 8, PointerLong = 7\<rparr>, data = 100, len = 8, pos = 4\<rparr> 7 = (Inr 0x08, \<lparr>mem = \<lparr>Data = 100, Length = 8, PointerLong = 7\<rparr>, data = 100, len = 8, pos = 4\<rparr>)
   \<and> ReadInt8_at \<lparr>bytes = (\<lambda>a. if 100 \<le> a \<and> a < 108 then word_of_int (a - 99) else 0), byte_order = LittleEndian\<rparr> \<lparr>mem = \<lparr>Data = 100, Length = 8, PointerLong = 7\<rparr>, data = 100, len = 8, pos = 4\<rparr> (- 1) = (Inr 0, \<lparr>mem = \<lparr>Data = 100, Length = 8, PointerLong = 7\<rparr>, data = 100, len = 8, pos = 4\<rparr>)
   \<and> (\<exists>e. ReadInt8_at \<lparr>bytes = (\<lambda>a. if 100 \<le> a \<and> a < 108 then word_of_int (a - 99) else 0), byte_order = LittleEndian\<rparr> \<lparr>mem = \<lparr>Data = 100, Length = 8, PointerLong = 7\<rparr>, data = 100, len = 8, pos = 4\<rparr> 8 = (Inl e, \<lparr>mem = \<lparr>Data = 100, Length = 8, PointerLong = 7\<rparr>, data = 100, len = 8, pos = 4\<rparr>) \<and> InsufficientData e)
   \<and> ReadInt16_at \<lparr>bytes = (\<lambda>a. if 100 \<le> a \<and> a < 108 then word_of_int (a - 99) else 0), byte_order = LittleEndian\<rparr> \<lparr>mem = \<lparr>Data = 100, Length = 8, PointerLong = 7\<rparr>, data = 100, len = 8, pos = 4\<rparr> 6 = (Inr 0x0807, \<lparr>mem = \<lparr>Data = 100, Length = 8, PointerLong = 7\<rparr>, data = 100, len = 8, pos = 4\<rparr>)
   \<and> (\<exists>e. ReadInt16_at \<lparr>bytes = (\<lambda>a. if 100 \<le> a \<and> a < 108 then word_of_int (a - 99) else 0), byte_order = LittleEndian\<rparr> \<lparr>mem = \<lparr>Data = 100, Length = 8, PointerLong = 7\<rparr>, data = 100, len = 8, pos = 4\<rparr> 7 = (Inl e, \<lparr>mem = \<lparr>Data = 100, Length = 8, PointerLong = 7\<rparr>, data = 100, len = 8, pos = 4\<rparr>) \<and> InsufficientData e)
   \<and> ReadInt32_at \<lparr>bytes = (\<lambda>a. if 100 \<le> a \<and> a < 108 then word_of_int (a - 99) else 0), byte_order = LittleEndian\<rparr> \<lparr>mem = \<lparr>Data = 100, Length = 8, PointerLong = 7\<rparr>, data = 100, len = 8, pos = 4\<rparr> 4 = (Inr 0x08070605, \<lparr>mem = \<lparr>Data = 100, Length = 8, PointerLong = 7\<rparr>, data = 100, len = 8, pos = 4\<rparr>)
   \<and> (\<exists>e. ReadInt32_at \<lparr>bytes = (\<lambda>a. if 100 \<le> a \<and> a < 108 then word_of_int (a - 99) else 0), byte_order = LittleEndian\<rparr> \<lparr>mem = \<lparr>Data = 100, Length = 8, PointerLong = 7\<rparr>, data = 100, len = 8, pos = 4\<rparr> 5 = (Inl e, \<lparr>mem = \<lparr>Data = 100, Length = 8, PointerLong = 7\<rparr>, data = 100, len = 8, pos = 4\<rparr>) \<and> InsufficientData e)"
  using positional_read [of 7 "\<lparr>mem = \<lparr>Data = 100, Length = 8, PointerLong = 7\<rparr>, data = 100, len = 8, pos = 4\<rparr>" "\<lparr>bytes = (\<lambda>a. if 100 \<le> a \<and> a < 108 then word_of_int (a - 99) else 0), byte_order = LittleEndian\<rparr>"]
    positional_read [of "- 1" "\<lparr>mem = \<lparr>Data = 100, Length = 8, PointerLong = 7\<rparr>, data = 100, len = 8, pos = 4\<rparr>" "\<lparr>bytes = (\<lambda>a. if 100 \<le> a \<and> a < 108 then word_of_int (a - 99) else 0), byte_order = LittleEndian\<rparr>"]
    positional_read [of 8 "\<lparr>mem = \<lparr>Data = 100, Length = 8, PointerLong = 7\<rparr>, data = 100, len = 8, pos = 4\<rparr>" "\<lparr>bytes = (\<lambda>a. if 100 \<le> a \<and> a < 108 then word_of_int (a - 99) else 0), byte_order = LittleEndian\<rparr>"]
    positional_read [of 6 "\<lparr>mem = \<lparr>Data = 100, Length = 8, PointerLong = 7\<rparr>, data = 100, len = 8, pos = 4\<rparr>" "\<lparr>bytes = (\<lambda>a. if 100 \<le> a \<and> a < 108 then word_of_int (a - 99) else 0), byte_order = LittleEndian\<rparr>"]
    positional_read [of 4 "\<lparr>mem = \<lparr>Data = 100, Length = 8, PointerLong = 7\<rparr>, data = 100, len = 8, pos = 4\<rparr>" "\<lparr>bytes = (\<lambda>a. if 100 \<le> a \<and> a < 108 then word_of_int (a - 99) else 0), byte_order = LittleEndian\<rparr>"]
    positional_read [of 5 "\<lparr>mem = \<lparr>Data = 100, Length = 8, PointerLong = 7\<rparr>, data = 100, len = 8, pos = 4\<rparr>" "\<lparr>bytes = (\<lambda>a. if 100 \<le> a \<and> a < 108 then word_of_int (a - 99) else 0), byte_order = LittleEndian\<rparr>"]
  by (simp add: upt_sizes)

subsection \<open>Construction and position management\<close>

text \<open>
  C6. The constructor with an explicit length yields a stream of that length at
  position 0 when the length is at most \<^verbatim>\<open>mem->Length()\<close>, and fails with the
  out-of-bounds error when the length is greater.
\<close>

theorem new_InteropInputStream_len_checked:
  "(sint l \<le> sint (Length mm) \<longrightarrow>
      new_InteropInputStream_len mm l = Inr \<lparr>mem = mm, data = Data mm, len = l, pos = 0\<rparr>)
   \<and> (sint (Length mm) < sint l \<longrightarrow>
      (\<exists>e. new_InteropInputStream_len mm l = Inl e \<and> OutOfBounds e))"
  by (simp add: new_InteropInputStream_len_def OutOfBounds_def)

theorem new_InteropInputStream_len_checked_witness:
  "new_InteropInputStream_len \<lparr>Data = 100, Length = 8, PointerLong = 7\<rparr> 8 = Inr \<lparr>mem = \<lparr>Data = 100, Length = 8, PointerLong = 7\<rparr>, data = 100, len = 8, pos = 0\<rparr>
   \<and> new_InteropInputStream_len \<lparr>Data = 100, Length = 8, PointerLong = 7\<rparr> 5 = Inr \<lparr>mem = \<lparr>Data = 100, Length = 8, PointerLong = 7\<rparr>, data = 100, len = 5, pos = 0\<rparr>
   \<and> (\<exists>e. new_InteropInputStream_len \<lparr>Data = 100, Length = 8, PointerLong = 7\<rparr> 9 = Inl e \<and> OutOfBounds e)"
  using new_InteropInputStream_len_checked [of 8 "\<lparr>Data = 100, Length = 8, PointerLong = 7\<rparr>"]
    new_InteropInputStream_len_checked [of 5 "\<lparr>Data = 100, Length = 8, PointerLong = 7\<rparr>"]
    new_InteropInputStream_len_checked [of 9 "\<lparr>Data = 100, Length = 8, PointerLong = 7\<rparr>"]
  by simp

text \<open>
  C7. \<^verbatim>\<open>Position(int32_t pos)\<close> stores every \<open>p\<close> that is at most the length as the
  new position, and for every \<open>p\<close> above the length it fails with the out-of-bounds
  error and leaves the stream, its position included, as it was.
\<close>

theorem Position_set_bounded:
  "(sint p \<le> sint (len s) \<longrightarrow> Position_set s p = (Inr (), s\<lparr>pos := p\<rparr>))
   \<and> (sint (len s) < sint p \<longrightarrow>
         (\<exists>e. Position_set s p = (Inl e, s) \<and> OutOfBounds e))"
  by (simp add: Position_set_def OutOfBounds_def)

theorem Position_set_bounded_witness:
  "Position_set \<lparr>mem = \<lparr>Data = 100, Length = 8, PointerLong = 7\<rparr>, data = 100, len = 8, pos = 4\<rparr> 8 = (Inr (), \<lparr>mem = \<lparr>Data = 100, Length = 8, PointerLong = 7\<rparr>, data = 100, len = 8, pos = 8\<rparr>)
   \<and> (\<exists>e. Position_set \<lparr>mem = \<lparr>Data = 100, Length = 8, PointerLong = 7\<rparr>, data = 100, len = 8, pos = 4\<rparr> 9 = (Inl e, \<lparr>mem = \<lparr>Data = 100, Length = 8, PointerLong = 7\<rparr>, data = 100, len = 8, pos = 4\<rparr>) \<and> OutOfBounds e)"
  using Position_set_bounded [of 8 "\<lparr>mem = \<lparr>Data = 100, Length = 8, PointerLong = 7\<rparr>, data = 100, len = 8, pos = 4\<rparr>"]
    Position_set_bounded [of 9 "\<lparr>mem = \<lparr>Data = 100, Length = 8, PointerLong = 7\<rparr>, data = 100, len = 8, pos = 4\<rparr>"]
  by simp

subsection \<open>Booleans\<close>

lemma sint8_eq_1: "sint (b :: 8 word) = 1 \<longleftrightarrow> b = 1"
proof
  assume "sint b = 1"
  then have "sint b = sint (1 :: 8 word)" by simp
  then show "b = 1" by (rule signed_word_eqI)
qed simp

lemma ReadBool_fail:
  "sint (len s - pos s) < 1 \<Longrightarrow> \<exists>e. ReadBool m s = (Inl e, s) \<and> InsufficientData e"
  using IN_READ_fail [of s 1 m, where 'a = 8]
  by (auto simp add: ReadBool_def ReadInt8_def)

lemma ReadBool_ok:
  "1 \<le> sint (len s - pos s) \<Longrightarrow>
   ReadBool m s = (Inr (bytes m (data s + sint (pos s)) = 1), s\<lparr>pos := pos s + 1\<rparr>)"
  using IN_READ_ok [of 1 s m, where 'a = 8]
  by (simp add: ReadBool_def ReadInt8_def load_byte sint8_eq_1)

lemma in_bounds_step:
  assumes "position_in_bounds s" "1 \<le> sint (len s) - sint (pos s)"
  shows "position_in_bounds (s\<lparr>pos := pos s + 1\<rparr>)"
    and "sint (pos s + 1) = sint (pos s) + 1"
proof -
  show *: "sint (pos s + 1) = sint (pos s) + 1"
    using assms sint32_range [of "len s"] sint32_add_exact [of "pos s" 1]
    by (simp add: position_in_bounds_def)
  show "position_in_bounds (s\<lparr>pos := pos s + 1\<rparr>)"
    using assms * by (simp add: position_in_bounds_def)
qed

lemma ReadBoolArray_loop_ok:
  "position_in_bounds s \<Longrightarrow> int n \<le> sint (len s) - sint (pos s) \<Longrightarrow>
   ReadBoolArray_loop m n s =
     (Inr (map (\<lambda>i. bytes m (data s + sint (pos s) + int i) = 1) [0..<n]),
      s\<lparr>pos := pos s + of_nat n\<rparr>)"
proof (induction n arbitrary: s)
  case 0
  then show ?case by simp
next
  case (Suc n)
  have rem: "1 \<le> sint (len s) - sint (pos s)" using Suc.prems by simp
  have rb: "ReadBool m s = (Inr (bytes m (data s + sint (pos s)) = 1), s\<lparr>pos := pos s + 1\<rparr>)"
    using rem Suc.prems(1) by (simp add: ReadBool_ok in_bounds_remaining)
  have p1: "sint (pos s + 1) = sint (pos s) + 1"
    using in_bounds_step(2) [OF Suc.prems(1) rem] .
  have ih: "ReadBoolArray_loop m n (s\<lparr>pos := pos s + 1\<rparr>) =
     (Inr (map (\<lambda>i. bytes m (data s + sint (pos s + 1) + int i) = 1) [0..<n]),
      s\<lparr>pos := pos s + (1 + of_nat n)\<rparr>)"
    using Suc.IH [of "s\<lparr>pos := pos s + 1\<rparr>"] in_bounds_step(1) [OF Suc.prems(1) rem]
      Suc.prems(2) p1 by (simp add: add.assoc)
  have m: "map (\<lambda>i. bytes m (data s + sint (pos s) + int i) = 1) [0..<Suc n] =
      (bytes m (data s + sint (pos s)) = 1) #
      map (\<lambda>i. bytes m (data s + sint (pos s + 1) + int i) = 1) [0..<n]"
    by (simp add: upt_conv_Cons map_Suc_upt [symmetric] p1 add.assoc del: upt_Suc)
  show ?case
    by (simp only: ReadBoolArray_loop.simps rb prod.case sum.case ih m of_nat_Suc)
qed


lemma of_nat_nat_sint: "0 \<le> sint (l :: 32 word) \<Longrightarrow> of_nat (nat (sint l)) = l"
  by (simp add: of_nat_nat)

lemma ReadBoolArray_Suc:
  assumes "0 \<le> sint l" "sint l < 2 ^ 31 - 1"
  shows "nat (sint (l + 1 :: 32 word)) = Suc (nat (sint l))"
  using assms sint32_add_exact [of l 1] by simp

text \<open>
  C9. \<^verbatim>\<open>ReadBool\<close> is true exactly when the byte it reads is 1. \<^verbatim>\<open>ReadBoolArray\<close> reads
  nothing for a count below 1, and for a count \<open>l + 1\<close> it is one \<^verbatim>\<open>ReadBool\<close>
  followed by the array read of count \<open>l\<close>; so with enough bytes left it returns, one
  element for each byte, whether that byte is 1, and the bytes 1, 0, 1, 2, 0xFF decode
  to true, false, true, false, false.
\<close>

theorem bool_decoding:
  "(1 \<le> sint (len s - pos s) \<longrightarrow>
      ReadBool m s = (Inr (bytes m (data s + sint (pos s)) = 1), s\<lparr>pos := pos s + 1\<rparr>))
   \<and> (sint l \<le> 0 \<longrightarrow> ReadBoolArray m s l = (Inr [], s))
   \<and> (0 \<le> sint l \<and> sint l < 2 ^ 31 - 1 \<longrightarrow>
      ReadBoolArray m s (l + 1) =
        (case ReadBool m s of
           (Inl e, s') \<Rightarrow> (Inl e, s')
         | (Inr b, s') \<Rightarrow>
             (case ReadBoolArray m s' l of
                (Inl e, s'') \<Rightarrow> (Inl e, s'')
              | (Inr bs, s'') \<Rightarrow> (Inr (b # bs), s''))))
   \<and> (position_in_bounds s \<and> 0 \<le> sint l \<and> sint l \<le> sint (len s) - sint (pos s) \<longrightarrow>
      ReadBoolArray m s l =
        (Inr (map (\<lambda>i. bytes m (data s + sint (pos s) + int i) = 1) [0..<nat (sint l)]),
         s\<lparr>pos := pos s + l\<rparr>))
   \<and> (position_in_bounds s \<and> 5 \<le> sint (len s) - sint (pos s) \<and>
       map (\<lambda>i. bytes m (data s + sint (pos s) + int i)) [0..<5] = [1, 0, 1, 2, 0xFF] \<longrightarrow>
      ReadBoolArray m s 5 = (Inr [True, False, True, False, False], s\<lparr>pos := pos s + 5\<rparr>))"
proof (intro conjI impI)
  assume "1 \<le> sint (len s - pos s)"
  then show "ReadBool m s = (Inr (bytes m (data s + sint (pos s)) = 1), s\<lparr>pos := pos s + 1\<rparr>)"
    by (rule ReadBool_ok)
next
  assume "sint l \<le> 0"
  then show "ReadBoolArray m s l = (Inr [], s)"
    by (simp add: ReadBoolArray_def)
next
  assume "0 \<le> sint l \<and> sint l < 2 ^ 31 - 1"
  then have "nat (sint (l + 1)) = Suc (nat (sint l))"
    by (simp add: ReadBoolArray_Suc)
  then show "ReadBoolArray m s (l + 1) =
        (case ReadBool m s of
           (Inl e, s') \<Rightarrow> (Inl e, s')
         | (Inr b, s') \<Rightarrow>
             (case ReadBoolArray m s' l of
                (Inl e, s'') \<Rightarrow> (Inl e, s'')
              | (Inr bs, s'') \<Rightarrow> (Inr (b # bs), s'')))"
    unfolding ReadBoolArray_def by simp
next
  assume a: "position_in_bounds s \<and> 0 \<le> sint l \<and> sint l \<le> sint (len s) - sint (pos s)"
  then have "int (nat (sint l)) \<le> sint (len s) - sint (pos s)" by simp
  with a show "ReadBoolArray m s l =
        (Inr (map (\<lambda>i. bytes m (data s + sint (pos s) + int i) = 1) [0..<nat (sint l)]),
         s\<lparr>pos := pos s + l\<rparr>)"
    by (simp add: ReadBoolArray_def ReadBoolArray_loop_ok of_nat_nat_sint)
next
  assume a: "position_in_bounds s \<and> 5 \<le> sint (len s) - sint (pos s) \<and>
       map (\<lambda>i. bytes m (data s + sint (pos s) + int i)) [0..<5] = [1, 0, 1, 2, 0xFF]"
  have "map (\<lambda>i. bytes m (data s + sint (pos s) + int i) = 1) [0..<5] =
        map (\<lambda>b. b = 1) (map (\<lambda>i. bytes m (data s + sint (pos s) + int i)) [0..<5])"
    by (simp only: map_map o_def)
  also have "\<dots> = [True, False, True, False, False]"
    using a by (simp only: list.map) simp
  finally have m: "map (\<lambda>i. bytes m (data s + sint (pos s) + int i) = 1) [0..<5] =
        [True, False, True, False, False]" .
  have "ReadBoolArray_loop m 5 s =
     (Inr (map (\<lambda>i. bytes m (data s + sint (pos s) + int i) = 1) [0..<5]),
      s\<lparr>pos := pos s + of_nat 5\<rparr>)"
    using a by (intro ReadBoolArray_loop_ok) simp_all
  then show "ReadBoolArray m s 5 = (Inr [True, False, True, False, False], s\<lparr>pos := pos s + 5\<rparr>)"
    by (simp add: ReadBoolArray_def m)
qed

theorem bool_decoding_witness:
  "ReadBool \<lparr>bytes = (\<lambda>a. if a = 100 then 1 else if a = 101 then 0 else if a = 102 then 1 else if a = 103 then 2 else if a = 104 then 0xFF else 0), byte_order = BigEndian\<rparr> \<lparr>mem = \<lparr>Data = 100, Length = 8, PointerLong = 7\<rparr>, data = 100, len = 5, pos = 0\<rparr> = (Inr True, \<lparr>mem = \<lparr>Data = 100, Length = 8, PointerLong = 7\<rparr>, data = 100, len = 5, pos = 1\<rparr>)
   \<and> ReadBoolArray \<lparr>bytes = (\<lambda>a. if a = 100 then 1 else if a = 101 then 0 else if a = 102 then 1 else if a = 103 then 2 else if a = 104 then 0xFF else 0), byte_order = BigEndian\<rparr> \<lparr>mem = \<lparr>Data = 100, Length = 8, PointerLong = 7\<rparr>, data = 100, len = 5, pos = 0\<rparr> 0 = (Inr [], \<lparr>mem = \<lparr>Data = 100, Length = 8, PointerLong = 7\<rparr>, data = 100, len = 5, pos = 0\<rparr>)
   \<and> ReadBoolArray \<lparr>bytes = (\<lambda>a. if a = 100 then 1 else if a = 101 then 0 else if a = 102 then 1 else if a = 103 then 2 else if a = 104 then 0xFF else 0), byte_order = BigEndian\<rparr> \<lparr>mem = \<lparr>Data = 100, Length = 8, PointerLong = 7\<rparr>, data = 100, len = 5, pos = 3\<rparr> 2 = (Inr [False, False], \<lparr>mem = \<lparr>Data = 100, Length = 8, PointerLong = 7\<rparr>, data = 100, len = 5, pos = 5\<rparr>)
   \<and> ReadBoolArray \<lparr>bytes = (\<lambda>a. if a = 100 then 1 else if a = 101 then 0 else if a = 102 then 1 else if a = 103 then 2 else if a = 104 then 0xFF else 0), byte_order = BigEndian\<rparr> \<lparr>mem = \<lparr>Data = 100, Length = 8, PointerLong = 7\<rparr>, data = 100, len = 5, pos = 0\<rparr> 5 = (Inr [True, False, True, False, False], \<lparr>mem = \<lparr>Data = 100, Length = 8, PointerLong = 7\<rparr>, data = 100, len = 5, pos = 5\<rparr>)"
  using bool_decoding [of "\<lparr>mem = \<lparr>Data = 100, Length = 8, PointerLong = 7\<rparr>, data = 100, len = 5, pos = 0\<rparr>" "\<lparr>bytes = (\<lambda>a. if a = 100 then 1 else if a = 101 then 0 else if a = 102 then 1 else if a = 103 then 2 else if a = 104 then 0xFF else 0), byte_order = BigEndian\<rparr>" 0]
    bool_decoding [of "\<lparr>mem = \<lparr>Data = 100, Length = 8, PointerLong = 7\<rparr>, data = 100, len = 5, pos = 3\<rparr>" "\<lparr>bytes = (\<lambda>a. if a = 100 then 1 else if a = 101 then 0 else if a = 102 then 1 else if a = 103 then 2 else if a = 104 then 0xFF else 0), byte_order = BigEndian\<rparr>" 2]
  by (simp add: position_in_bounds_def upt_conv_Cons)

subsection \<open>Array reads\<close>

lemma CopyAndShift_fail:
  "sint (len s - pos s) < sint b \<Longrightarrow>
   \<exists>e. CopyAndShift m s b = Some (Inl e, s) \<and> InsufficientData e"
  by (simp add: CopyAndShift_def EnsureEnoughData_def InsufficientData_def)

lemma CopyAndShift_ok:
  "sint b \<le> sint (len s - pos s) \<Longrightarrow> 0 \<le> sint b \<Longrightarrow>
   CopyAndShift m s b =
     Some (Inr (memcpy m (data s + sint (pos s)) (nat (sint b))), s\<lparr>pos := pos s + b\<rparr>)"
  by (simp add: CopyAndShift_def EnsureEnoughData_def Shift_def)

lemma CopyAndShift_negative:
  "sint b \<le> sint (len s - pos s) \<Longrightarrow> sint b < 0 \<Longrightarrow> CopyAndShift m s b = None"
  by (simp add: CopyAndShift_def EnsureEnoughData_def)

lemma push_bit_wrap: "push_bit k (n :: 32 word) = word_of_int (sint n * 2 ^ k)"
  by (simp add: push_bit_eq_mult)

lemma sint_wrap: "sint (word_of_int k :: 32 word) = (k + 2 ^ 31) mod 2 ^ 32 - 2 ^ 31"
  using int_word_sint [of k, where 'a = 32] by simp

lemma array_read_wrapped:
  "IGNITE_INTEROP_IN_READ_ARRAY m s n shift =
     CopyAndShift m s (word_of_int (sint n * 2 ^ shift))"
  by (simp add: IGNITE_INTEROP_IN_READ_ARRAY_def push_bit_wrap)

lemma CopyAndShift_cases:
  "(sint (len s - pos s) < sint b \<longrightarrow>
      (\<exists>e. CopyAndShift m s b = Some (Inl e, s) \<and> InsufficientData e))
   \<and> (sint b \<le> sint (len s - pos s) \<and> 0 \<le> sint b \<longrightarrow>
      CopyAndShift m s b =
        Some (Inr (memcpy m (data s + sint (pos s)) (nat (sint b))), s\<lparr>pos := pos s + b\<rparr>))
   \<and> (sint b \<le> sint (len s - pos s) \<and> sint b < 0 \<longrightarrow> CopyAndShift m s b = None)"
  using CopyAndShift_fail [of s b m] CopyAndShift_ok [of b s m]
    CopyAndShift_negative [of b s m]
  by simp

lemma array_read_general:
  assumes "ReadArray m s n = IGNITE_INTEROP_IN_READ_ARRAY m s n shift"
  shows "let cnt = (word_of_int (sint n * 2 ^ shift) :: 32 word) in
         sint cnt = (sint n * 2 ^ shift + 2 ^ 31) mod 2 ^ 32 - 2 ^ 31
       \<and> (sint (len s - pos s) < sint cnt \<longrightarrow>
            (\<exists>e. ReadArray m s n = Some (Inl e, s) \<and> InsufficientData e))
       \<and> (sint cnt \<le> sint (len s - pos s) \<and> 0 \<le> sint cnt \<longrightarrow>
            ReadArray m s n =
              Some (Inr (memcpy m (data s + sint (pos s)) (nat (sint cnt))),
                    s\<lparr>pos := pos s + cnt\<rparr>))
       \<and> (sint cnt \<le> sint (len s - pos s) \<and> sint cnt < 0 \<longrightarrow> ReadArray m s n = None)"
  unfolding Let_def assms array_read_wrapped
  using CopyAndShift_cases [of s "word_of_int (sint n * 2 ^ shift)" m]
    sint_wrap [of "sint n * 2 ^ shift"]
  by blast

text \<open>
  C10. Every array read made through \<^verbatim>\<open>IGNITE_INTEROP_IN_READ_ARRAY\<close> works with one
  byte count \<open>cnt\<close>: the count of elements shifted left by the logarithm of the element
  size as an \<^verbatim>\<open>int32_t\<close>, which is the product of count and size modulo \<open>2 ^ 32\<close> read
  as a signed value, and not the product itself. That value is what
  \<^verbatim>\<open>EnsureEnoughData\<close> compares with \<^verbatim>\<open>len - pos\<close>; when it passes and is not negative,
  it is the number of bytes copied and the amount added to the position; when it passes
  and is negative, it is handed to \<^verbatim>\<open>memcpy\<close>, in which the call ends without a return.
  For elements of 8 bytes a count of \<open>2 ^ 29\<close> gives the byte count 0, so the read
  succeeds and copies nothing whenever \<^verbatim>\<open>len - pos\<close> is not negative; a count of
  \<open>2 ^ 28\<close> gives the byte count \<open>- 2 ^ 31\<close>, which passes the check in every stream, so
  no not-enough-data error is raised although \<open>2 ^ 31\<close> bytes are never left.
\<close>

theorem array_byte_length:
  "(\<forall>(shift, ReadArray) \<in> set [(0, ReadInt8Array), (1, ReadInt16Array), (1, ReadUInt16Array),
        (2, ReadInt32Array), (3, ReadInt64Array), (2, ReadFloatArray), (3, ReadDoubleArray)].
      (let cnt = (word_of_int (sint n * 2 ^ shift) :: 32 word) in
         sint cnt = (sint n * 2 ^ shift + 2 ^ 31) mod 2 ^ 32 - 2 ^ 31
       \<and> (sint (len s - pos s) < sint cnt \<longrightarrow>
            (\<exists>e. ReadArray m s n = Some (Inl e, s) \<and> InsufficientData e))
       \<and> (sint cnt \<le> sint (len s - pos s) \<and> 0 \<le> sint cnt \<longrightarrow>
            ReadArray m s n =
              Some (Inr (memcpy m (data s + sint (pos s)) (nat (sint cnt))),
                    s\<lparr>pos := pos s + cnt\<rparr>))
       \<and> (sint cnt \<le> sint (len s - pos s) \<and> sint cnt < 0 \<longrightarrow> ReadArray m s n = None)))
   \<and> (0 \<le> sint (len s - pos s) \<longrightarrow> ReadInt64Array m s (2 ^ 29) = Some (Inr [], s))
   \<and> EnsureEnoughData s (push_bit 3 (2 ^ 28)) = Inr ()
   \<and> ReadInt64Array m s (2 ^ 28) = None"
proof (intro conjI)
  show "\<forall>(shift, ReadArray) \<in> set [(0, ReadInt8Array), (1, ReadInt16Array), (1, ReadUInt16Array),
        (2, ReadInt32Array), (3, ReadInt64Array), (2, ReadFloatArray), (3, ReadDoubleArray)].
      (let cnt = (word_of_int (sint n * 2 ^ shift) :: 32 word) in
         sint cnt = (sint n * 2 ^ shift + 2 ^ 31) mod 2 ^ 32 - 2 ^ 31
       \<and> (sint (len s - pos s) < sint cnt \<longrightarrow>
            (\<exists>e. ReadArray m s n = Some (Inl e, s) \<and> InsufficientData e))
       \<and> (sint cnt \<le> sint (len s - pos s) \<and> 0 \<le> sint cnt \<longrightarrow>
            ReadArray m s n =
              Some (Inr (memcpy m (data s + sint (pos s)) (nat (sint cnt))),
                    s\<lparr>pos := pos s + cnt\<rparr>))
       \<and> (sint cnt \<le> sint (len s - pos s) \<and> sint cnt < 0 \<longrightarrow> ReadArray m s n = None))"
    by (simp only: list.set ball_simps prod.case)
      (intro conjI array_read_general; simp only: ReadInt8Array_def ReadInt16Array_def
        ReadUInt16Array_def ReadInt32Array_def ReadInt64Array_def ReadFloatArray_def
        ReadDoubleArray_def)
next
  have b: "(word_of_int (sint (2 ^ 29 :: 32 word) * 2 ^ 3) :: 32 word) = 0" by simp
  show "0 \<le> sint (len s - pos s) \<longrightarrow> ReadInt64Array m s (2 ^ 29) = Some (Inr [], s)"
    unfolding ReadInt64Array_def array_read_wrapped b
    using CopyAndShift_ok [of 0 s m]
    by (simp add: memcpy_def)
next
  have "sint (2 ^ 31 :: 32 word) \<le> sint (len s - pos s)"
    using sint32_range [of "len s - pos s"] by simp
  then show "EnsureEnoughData s (push_bit 3 (2 ^ 28)) = Inr ()"
    by (simp add: EnsureEnoughData_def)
next
  have b: "(word_of_int (sint (2 ^ 28 :: 32 word) * 2 ^ 3) :: 32 word) = 2 ^ 31" by simp
  have "sint (2 ^ 31 :: 32 word) \<le> sint (len s - pos s)" "sint (2 ^ 31 :: 32 word) < 0"
    using sint32_range [of "len s - pos s"] by simp_all
  then show "ReadInt64Array m s (2 ^ 28) = None"
    unfolding ReadInt64Array_def array_read_wrapped b
    by (rule CopyAndShift_negative)
qed

theorem array_byte_length_witness:
  "ReadInt8Array \<lparr>bytes = (\<lambda>a. if 100 \<le> a \<and> a < 108 then word_of_int (a - 99) else 0), byte_order = LittleEndian\<rparr> \<lparr>mem = \<lparr>Data = 100, Length = 8, PointerLong = 7\<rparr>, data = 100, len = 8, pos = 0\<rparr> 1 = Some (Inr [1], \<lparr>mem = \<lparr>Data = 100, Length = 8, PointerLong = 7\<rparr>, data = 100, len = 8, pos = 1\<rparr>)
   \<and> ReadInt16Array \<lparr>bytes = (\<lambda>a. if 100 \<le> a \<and> a < 108 then word_of_int (a - 99) else 0), byte_order = LittleEndian\<rparr> \<lparr>mem = \<lparr>Data = 100, Length = 8, PointerLong = 7\<rparr>, data = 100, len = 8, pos = 0\<rparr> 1 = Some (Inr [1, 2], \<lparr>mem = \<lparr>Data = 100, Length = 8, PointerLong = 7\<rparr>, data = 100, len = 8, pos = 2\<rparr>)
   \<and> ReadUInt16Array \<lparr>bytes = (\<lambda>a. if 100 \<le> a \<and> a < 108 then word_of_int (a - 99) else 0), byte_order = LittleEndian\<rparr> \<lparr>mem = \<lparr>Data = 100, Length = 8, PointerLong = 7\<rparr>, data = 100, len = 8, pos = 0\<rparr> 1 = Some (Inr [1, 2], \<lparr>mem = \<lparr>Data = 100, Length = 8, PointerLong = 7\<rparr>, data = 100, len = 8, pos = 2\<rparr>)
   \<and> ReadInt32Array \<lparr>bytes = (\<lambda>a. if 100 \<le> a \<and> a < 108 then word_of_int (a - 99) else 0), byte_order = LittleEndian\<rparr> \<lparr>mem = \<lparr>Data = 100, Length = 8, PointerLong = 7\<rparr>, data = 100, len = 8, pos = 0\<rparr> 1 = Some (Inr [1, 2, 3, 4], \<lparr>mem = \<lparr>Data = 100, Length = 8, PointerLong = 7\<rparr>, data = 100, len = 8, pos = 4\<rparr>)
   \<and> ReadInt64Array \<lparr>bytes = (\<lambda>a. if 100 \<le> a \<and> a < 108 then word_of_int (a - 99) else 0), byte_order = LittleEndian\<rparr> \<lparr>mem = \<lparr>Data = 100, Length = 8, PointerLong = 7\<rparr>, data = 100, len = 8, pos = 0\<rparr> 1 = Some (Inr [1, 2, 3, 4, 5, 6, 7, 8], \<lparr>mem = \<lparr>Data = 100, Length = 8, PointerLong = 7\<rparr>, data = 100, len = 8, pos = 8\<rparr>)
   \<and> ReadFloatArray \<lparr>bytes = (\<lambda>a. if 100 \<le> a \<and> a < 108 then word_of_int (a - 99) else 0), byte_order = LittleEndian\<rparr> \<lparr>mem = \<lparr>Data = 100, Length = 8, PointerLong = 7\<rparr>, data = 100, len = 8, pos = 0\<rparr> 1 = Some (Inr [1, 2, 3, 4], \<lparr>mem = \<lparr>Data = 100, Length = 8, PointerLong = 7\<rparr>, data = 100, len = 8, pos = 4\<rparr>)
   \<and> ReadDoubleArray \<lparr>bytes = (\<lambda>a. if 100 \<le> a \<and> a < 108 then word_of_int (a - 99) else 0), byte_order = LittleEndian\<rparr> \<lparr>mem = \<lparr>Data = 100, Length = 8, PointerLong = 7\<rparr>, data = 100, len = 8, pos = 0\<rparr> 1 = Some (Inr [1, 2, 3, 4, 5, 6, 7, 8], \<lparr>mem = \<lparr>Data = 100, Length = 8, PointerLong = 7\<rparr>, data = 100, len = 8, pos = 8\<rparr>)
   \<and> (\<exists>e. ReadInt8Array \<lparr>bytes = (\<lambda>a. if 100 \<le> a \<and> a < 108 then word_of_int (a - 99) else 0), byte_order = LittleEndian\<rparr> \<lparr>mem = \<lparr>Data = 100, Length = 8, PointerLong = 7\<rparr>, data = 100, len = 8, pos = 8\<rparr> 1 = Some (Inl e, \<lparr>mem = \<lparr>Data = 100, Length = 8, PointerLong = 7\<rparr>, data = 100, len = 8, pos = 8\<rparr>) \<and> InsufficientData e)
   \<and> (\<exists>e. ReadInt16Array \<lparr>bytes = (\<lambda>a. if 100 \<le> a \<and> a < 108 then word_of_int (a - 99) else 0), byte_order = LittleEndian\<rparr> \<lparr>mem = \<lparr>Data = 100, Length = 8, PointerLong = 7\<rparr>, data = 100, len = 8, pos = 8\<rparr> 1 = Some (Inl e, \<lparr>mem = \<lparr>Data = 100, Length = 8, PointerLong = 7\<rparr>, data = 100, len = 8, pos = 8\<rparr>) \<and> InsufficientData e)
   \<and> (\<exists>e. ReadUInt16Array \<lparr>bytes = (\<lambda>a. if 100 \<le> a \<and> a < 108 then word_of_int (a - 99) else 0), byte_order = LittleEndian\<rparr> \<lparr>mem = \<lparr>Data = 100, Length = 8, PointerLong = 7\<rparr>, data = 100, len = 8, pos = 8\<rparr> 1 = Some (Inl e, \<lparr>mem = \<lparr>Data = 100, Length = 8, PointerLong = 7\<rparr>, data = 100, len = 8, pos = 8\<rparr>) \<and> InsufficientData e)
   \<and> (\<exists>e. ReadInt32Array \<lparr>bytes = (\<lambda>a. if 100 \<le> a \<and> a < 108 then word_of_int (a - 99) else 0), byte_order = LittleEndian\<rparr> \<lparr>mem = \<lparr>Data = 100, Length = 8, PointerLong = 7\<rparr>, data = 100, len = 8, pos = 8\<rparr> 1 = Some (Inl e, \<lparr>mem = \<lparr>Data = 100, Length = 8, PointerLong = 7\<rparr>, data = 100, len = 8, pos = 8\<rparr>) \<and> InsufficientData e)
   \<and> (\<exists>e. ReadInt64Array \<lparr>bytes = (\<lambda>a. if 100 \<le> a \<and> a < 108 then word_of_int (a - 99) else 0), byte_order = LittleEndian\<rparr> \<lparr>mem = \<lparr>Data = 100, Length = 8, PointerLong = 7\<rparr>, data = 100, len = 8, pos = 8\<rparr> 1 = Some (Inl e, \<lparr>mem = \<lparr>Data = 100, Length = 8, PointerLong = 7\<rparr>, data = 100, len = 8, pos = 8\<rparr>) \<and> InsufficientData e)
   \<and> (\<exists>e. ReadFloatArray \<lparr>bytes = (\<lambda>a. if 100 \<le> a \<and> a < 108 then word_of_int (a - 99) else 0), byte_order = LittleEndian\<rparr> \<lparr>mem = \<lparr>Data = 100, Length = 8, PointerLong = 7\<rparr>, data = 100, len = 8, pos = 8\<rparr> 1 = Some (Inl e, \<lparr>mem = \<lparr>Data = 100, Length = 8, PointerLong = 7\<rparr>, data = 100, len = 8, pos = 8\<rparr>) \<and> InsufficientData e)
   \<and> (\<exists>e. ReadDoubleArray \<lparr>bytes = (\<lambda>a. if 100 \<le> a \<and> a < 108 then word_of_int (a - 99) else 0), byte_order = LittleEndian\<rparr> \<lparr>mem = \<lparr>Data = 100, Length = 8, PointerLong = 7\<rparr>, data = 100, len = 8, pos = 8\<rparr> 1 = Some (Inl e, \<lparr>mem = \<lparr>Data = 100, Length = 8, PointerLong = 7\<rparr>, data = 100, len = 8, pos = 8\<rparr>) \<and> InsufficientData e)
   \<and> ReadInt8Array \<lparr>bytes = (\<lambda>a. if 100 \<le> a \<and> a < 108 then word_of_int (a - 99) else 0), byte_order = LittleEndian\<rparr> \<lparr>mem = \<lparr>Data = 100, Length = 8, PointerLong = 7\<rparr>, data = 100, len = 8, pos = 4\<rparr> (- 1) = None
   \<and> ReadInt16Array \<lparr>bytes = (\<lambda>a. if 100 \<le> a \<and> a < 108 then word_of_int (a - 99) else 0), byte_order = LittleEndian\<rparr> \<lparr>mem = \<lparr>Data = 100, Length = 8, PointerLong = 7\<rparr>, data = 100, len = 8, pos = 4\<rparr> (- 1) = None
   \<and> ReadUInt16Array \<lparr>bytes = (\<lambda>a. if 100 \<le> a \<and> a < 108 then word_of_int (a - 99) else 0), byte_order = LittleEndian\<rparr> \<lparr>mem = \<lparr>Data = 100, Length = 8, PointerLong = 7\<rparr>, data = 100, len = 8, pos = 4\<rparr> (- 1) = None
   \<and> ReadInt32Array \<lparr>bytes = (\<lambda>a. if 100 \<le> a \<and> a < 108 then word_of_int (a - 99) else 0), byte_order = LittleEndian\<rparr> \<lparr>mem = \<lparr>Data = 100, Length = 8, PointerLong = 7\<rparr>, data = 100, len = 8, pos = 4\<rparr> (- 1) = None
   \<and> ReadInt64Array \<lparr>bytes = (\<lambda>a. if 100 \<le> a \<and> a < 108 then word_of_int (a - 99) else 0), byte_order = LittleEndian\<rparr> \<lparr>mem = \<lparr>Data = 100, Length = 8, PointerLong = 7\<rparr>, data = 100, len = 8, pos = 4\<rparr> (- 1) = None
   \<and> ReadFloatArray \<lparr>bytes = (\<lambda>a. if 100 \<le> a \<and> a < 108 then word_of_int (a - 99) else 0), byte_order = LittleEndian\<rparr> \<lparr>mem = \<lparr>Data = 100, Length = 8, PointerLong = 7\<rparr>, data = 100, len = 8, pos = 4\<rparr> (- 1) = None
   \<and> ReadDoubleArray \<lparr>bytes = (\<lambda>a. if 100 \<le> a \<and> a < 108 then word_of_int (a - 99) else 0), byte_order = LittleEndian\<rparr> \<lparr>mem = \<lparr>Data = 100, Length = 8, PointerLong = 7\<rparr>, data = 100, len = 8, pos = 4\<rparr> (- 1) = None
   \<and> ReadInt64Array \<lparr>bytes = (\<lambda>a. if 100 \<le> a \<and> a < 108 then word_of_int (a - 99) else 0), byte_order = LittleEndian\<rparr> \<lparr>mem = \<lparr>Data = 100, Length = 8, PointerLong = 7\<rparr>, data = 100, len = 8, pos = 0\<rparr> (2 ^ 29) = Some (Inr [], \<lparr>mem = \<lparr>Data = 100, Length = 8, PointerLong = 7\<rparr>, data = 100, len = 8, pos = 0\<rparr>)"
  using array_byte_length [where n = 1 and s = "\<lparr>mem = \<lparr>Data = 100, Length = 8, PointerLong = 7\<rparr>, data = 100, len = 8, pos = 0\<rparr>" and m = "\<lparr>bytes = (\<lambda>a. if 100 \<le> a \<and> a < 108 then word_of_int (a - 99) else 0), byte_order = LittleEndian\<rparr>"]
    array_byte_length [where n = 1 and s = "\<lparr>mem = \<lparr>Data = 100, Length = 8, PointerLong = 7\<rparr>, data = 100, len = 8, pos = 8\<rparr>" and m = "\<lparr>bytes = (\<lambda>a. if 100 \<le> a \<and> a < 108 then word_of_int (a - 99) else 0), byte_order = LittleEndian\<rparr>"]
    array_byte_length [where n = "- 1" and s = "\<lparr>mem = \<lparr>Data = 100, Length = 8, PointerLong = 7\<rparr>, data = 100, len = 8, pos = 4\<rparr>" and m = "\<lparr>bytes = (\<lambda>a. if 100 \<le> a \<and> a < 108 then word_of_int (a - 99) else 0), byte_order = LittleEndian\<rparr>"]
  by (simp add: memcpy_def upt_sizes)

subsection \<open>Skipping and negative positions\<close>

text \<open>
  C2. \<^verbatim>\<open>Ignore(cnt)\<close> is \<^verbatim>\<open>Shift(cnt)\<close> alone: it cannot fail, and nothing compares
  \<open>cnt\<close> with \<^verbatim>\<open>len - pos\<close>. In a stream of length 4 at position 0, skipping 10 bytes
  returns with the position 10, beyond the length, where \<^verbatim>\<open>CopyAndShift\<close> asked for
  the same 10 bytes fails with the not-enough-data error and leaves the position at 0.
\<close>

theorem Ignore_skips_validation:
  "Ignore \<lparr>mem = \<lparr>Data = 100, Length = 8, PointerLong = 7\<rparr>, data = 100, len = 4, pos = 0\<rparr> 10 = \<lparr>mem = \<lparr>Data = 100, Length = 8, PointerLong = 7\<rparr>, data = 100, len = 4, pos = 10\<rparr>
   \<and> sint (len \<lparr>mem = \<lparr>Data = 100, Length = 8, PointerLong = 7\<rparr>, data = 100, len = 4, pos = 0\<rparr> - pos \<lparr>mem = \<lparr>Data = 100, Length = 8, PointerLong = 7\<rparr>, data = 100, len = 4, pos = 0\<rparr>) < 10
   \<and> \<not> position_in_bounds (Ignore \<lparr>mem = \<lparr>Data = 100, Length = 8, PointerLong = 7\<rparr>, data = 100, len = 4, pos = 0\<rparr> 10)
   \<and> (\<exists>e. CopyAndShift \<lparr>bytes = (\<lambda>a. if 100 \<le> a \<and> a < 108 then word_of_int (a - 99) else 0), byte_order = LittleEndian\<rparr> \<lparr>mem = \<lparr>Data = 100, Length = 8, PointerLong = 7\<rparr>, data = 100, len = 4, pos = 0\<rparr> 10 = Some (Inl e, \<lparr>mem = \<lparr>Data = 100, Length = 8, PointerLong = 7\<rparr>, data = 100, len = 4, pos = 0\<rparr>) \<and> InsufficientData e)"
  by (simp add: Ignore_def Shift_def position_in_bounds_def CopyAndShift_def
      EnsureEnoughData_def InsufficientData_def)

text \<open>
  C8, as the code has it. \<^verbatim>\<open>Position(int32_t pos)\<close> compares \<open>p\<close> with the length only,
  so a negative \<open>p\<close> is stored like any other value that is at most the length: always
  when the length is not negative. It is rejected, with the out-of-bounds error,
  exactly when it is greater than the length, which itself is negative then.
\<close>

theorem Position_set_negative:
  "sint p < 0 \<longrightarrow>
     (0 \<le> sint (len s) \<longrightarrow> Position_set s p = (Inr (), s\<lparr>pos := p\<rparr>))
     \<and> ((\<exists>e. fst (Position_set s p) = Inl e) \<longleftrightarrow> sint (len s) < sint p)
     \<and> (sint p \<le> sint (len s) \<longrightarrow> pos (snd (Position_set s p)) = p)"
  by (simp add: Position_set_def)

theorem Position_set_negative_witness:
  "sint (- 1 :: 32 word) < 0
   \<and> Position_set \<lparr>mem = \<lparr>Data = 100, Length = 8, PointerLong = 7\<rparr>, data = 100, len = 8, pos = 4\<rparr> (- 1) = (Inr (), \<lparr>mem = \<lparr>Data = 100, Length = 8, PointerLong = 7\<rparr>, data = 100, len = 8, pos = - 1\<rparr>)
   \<and> (\<exists>e. fst (Position_set \<lparr>mem = \<lparr>Data = 100, Length = 8, PointerLong = 7\<rparr>, data = 100, len = - 5, pos = 0\<rparr> (- 1)) = Inl e)"
  using Position_set_negative [of "- 1" "\<lparr>mem = \<lparr>Data = 100, Length = 8, PointerLong = 7\<rparr>, data = 100, len = 8, pos = 4\<rparr>"]
    Position_set_negative [of "- 1" "\<lparr>mem = \<lparr>Data = 100, Length = 8, PointerLong = 7\<rparr>, data = 100, len = - 5, pos = 0\<rparr>"]
  by simp

text \<open>
  Against C8 as it is stated: in a stream of length 8 the call \<^verbatim>\<open>Position(-1)\<close> does not
  fail, and the position is \<open>- 1\<close> afterwards.
\<close>

theorem Position_set_negative_counterexample:
  "sint (- 1 :: 32 word) < 0
   \<and> fst (Position_set \<lparr>mem = \<lparr>Data = 100, Length = 8, PointerLong = 7\<rparr>, data = 100, len = 8, pos = 4\<rparr> (- 1)) = Inr ()
   \<and> pos (snd (Position_set \<lparr>mem = \<lparr>Data = 100, Length = 8, PointerLong = 7\<rparr>, data = 100, len = 8, pos = 4\<rparr> (- 1))) = - 1"
  by (simp add: Position_set_def)

subsection \<open>Array reads that fail\<close>

lemma remaining_after_byte:
  assumes "1 \<le> sint (len s - pos s)"
  shows "sint (len s - (pos s + 1)) = sint (len s - pos s) - 1"
proof -
  have "sint ((len s - pos s) - 1) = sint (len s - pos s) - sint (1 :: 32 word)"
    using assms sint32_range [of "len s - pos s"] by (intro sint32_sub_exact) simp_all
  then show ?thesis by (simp add: diff_diff_eq)
qed

lemma sint_word_of_int_exact:
  "- (2 ^ 31) \<le> k \<Longrightarrow> k < 2 ^ 31 \<Longrightarrow> sint (word_of_int k :: 32 word) = k"
  by (simp add: sint_sbintrunc' signed_take_bit_int_eq_self)

lemma ReadBoolArray_loop_numeral:
  "ReadBoolArray_loop m (numeral k) s =
     (case ReadBool m s of
        (Inl e, s') \<Rightarrow> (Inl e, s')
      | (Inr b, s') \<Rightarrow>
          (case ReadBoolArray_loop m (pred_numeral k) s' of
             (Inl e, s'') \<Rightarrow> (Inl e, s'')
           | (Inr bs, s'') \<Rightarrow> (Inr (b # bs), s'')))"
  by (simp add: numeral_eq_Suc)

lemma ReadBoolArray_loop_fail:
  "sint (len s - pos s) < int n \<Longrightarrow> 0 < n \<Longrightarrow>
   \<exists>e s'. ReadBoolArray_loop m n s = (Inl e, s') \<and> InsufficientData e"
proof (induction n arbitrary: s)
  case 0
  then show ?case by simp
next
  case (Suc n)
  show ?case
  proof (cases "sint (len s - pos s) < 1")
    case True
    then obtain e where "ReadBool m s = (Inl e, s)" "InsufficientData e"
      using ReadBool_fail by blast
    then show ?thesis by simp
  next
    case False
    then have ok: "1 \<le> sint (len s - pos s)" by simp
    let ?s = "s\<lparr>pos := pos s + 1\<rparr>"
    have rb: "ReadBool m s = (Inr (bytes m (data s + sint (pos s)) = 1), ?s)"
      using ok by (rule ReadBool_ok)
    have r: "sint (len ?s - pos ?s) = sint (len s - pos s) - 1"
      using remaining_after_byte [OF ok] by simp
    have "sint (len ?s - pos ?s) < int n" "0 < n"
      using r ok Suc.prems by simp_all
    then obtain e s' where "ReadBoolArray_loop m n ?s = (Inl e, s')" "InsufficientData e"
      using Suc.IH by blast
    then show ?thesis by (simp add: rb)
  qed
qed

lemma array_read_exact:
  assumes "ReadArray m s n = IGNITE_INTEROP_IN_READ_ARRAY m s n shift"
    and "- (2 ^ 31) \<le> sint n * 2 ^ shift" "sint n * 2 ^ shift < 2 ^ 31"
    and "sint (len s - pos s) < sint n * 2 ^ shift"
  shows "\<exists>e. ReadArray m s n = Some (Inl e, s) \<and> InsufficientData e"
proof -
  have "sint (word_of_int (sint n * 2 ^ shift) :: 32 word) = sint n * 2 ^ shift"
    using assms(2,3) by (rule sint_word_of_int_exact)
  then show ?thesis
    unfolding assms(1) array_read_wrapped using assms(4) by (simp add: CopyAndShift_fail)
qed

text \<open>
  C5, as the code has it. A bulk array read whose byte count, the product of count and
  element size, is a value of \<^verbatim>\<open>int32_t\<close> fails with the not-enough-data error and
  leaves the stream as it was when \<^verbatim>\<open>len - pos\<close> is below that product. A read of a
  boolean array of a positive count fails with the same error when \<^verbatim>\<open>len - pos\<close> is
  below the count.
\<close>

theorem array_read_insufficient:
  "(\<forall>(shift, ReadArray) \<in> set [(0, ReadInt8Array), (1, ReadInt16Array), (1, ReadUInt16Array),
        (2, ReadInt32Array), (3, ReadInt64Array), (2, ReadFloatArray), (3, ReadDoubleArray)].
      - (2 ^ 31) \<le> sint n * 2 ^ shift \<and> sint n * 2 ^ shift < 2 ^ 31 \<and>
      sint (len s - pos s) < sint n * 2 ^ shift \<longrightarrow>
        (\<exists>e. ReadArray m s n = Some (Inl e, s) \<and> InsufficientData e))
   \<and> (0 < sint n \<and> sint (len s - pos s) < sint n \<longrightarrow>
        (\<exists>e s'. ReadBoolArray m s n = (Inl e, s') \<and> InsufficientData e))"
proof (intro conjI impI)
  show "\<forall>(shift, ReadArray) \<in> set [(0, ReadInt8Array), (1, ReadInt16Array), (1, ReadUInt16Array),
        (2, ReadInt32Array), (3, ReadInt64Array), (2, ReadFloatArray), (3, ReadDoubleArray)].
      - (2 ^ 31) \<le> sint n * 2 ^ shift \<and> sint n * 2 ^ shift < 2 ^ 31 \<and>
      sint (len s - pos s) < sint n * 2 ^ shift \<longrightarrow>
        (\<exists>e. ReadArray m s n = Some (Inl e, s) \<and> InsufficientData e)"
    by (simp only: list.set ball_simps prod.case)
      (intro conjI impI array_read_exact [where m = m and s = s and n = n];
        (elim conjE)?; (assumption | simp only: ReadInt8Array_def ReadInt16Array_def
        ReadUInt16Array_def ReadInt32Array_def ReadInt64Array_def ReadFloatArray_def
        ReadDoubleArray_def))
next
  assume "0 < sint n \<and> sint (len s - pos s) < sint n"
  then have "sint (len s - pos s) < int (nat (sint n))" "0 < nat (sint n)" by simp_all
  then show "\<exists>e s'. ReadBoolArray m s n = (Inl e, s') \<and> InsufficientData e"
    unfolding ReadBoolArray_def by (rule ReadBoolArray_loop_fail)
qed

theorem array_read_insufficient_witness:
  "(\<exists>e. ReadInt8Array \<lparr>bytes = (\<lambda>a. if 100 \<le> a \<and> a < 108 then word_of_int (a - 99) else 0), byte_order = LittleEndian\<rparr> \<lparr>mem = \<lparr>Data = 100, Length = 8, PointerLong = 7\<rparr>, data = 100, len = 8, pos = 4\<rparr> 5 = Some (Inl e, \<lparr>mem = \<lparr>Data = 100, Length = 8, PointerLong = 7\<rparr>, data = 100, len = 8, pos = 4\<rparr>) \<and> InsufficientData e)
   \<and> (\<exists>e. ReadInt16Array \<lparr>bytes = (\<lambda>a. if 100 \<le> a \<and> a < 108 then word_of_int (a - 99) else 0), byte_order = LittleEndian\<rparr> \<lparr>mem = \<lparr>Data = 100, Length = 8, PointerLong = 7\<rparr>, data = 100, len = 8, pos = 4\<rparr> 5 = Some (Inl e, \<lparr>mem = \<lparr>Data = 100, Length = 8, PointerLong = 7\<rparr>, data = 100, len = 8, pos = 4\<rparr>) \<and> InsufficientData e)
   \<and> (\<exists>e. ReadUInt16Array \<lparr>bytes = (\<lambda>a. if 100 \<le> a \<and> a < 108 then word_of_int (a - 99) else 0), byte_order = LittleEndian\<rparr> \<lparr>mem = \<lparr>Data = 100, Length = 8, PointerLong = 7\<rparr>, data = 100, len = 8, pos = 4\<rparr> 5 = Some (Inl e, \<lparr>mem = \<lparr>Data = 100, Length = 8, PointerLong = 7\<rparr>, data = 100, len = 8, pos = 4\<rparr>) \<and> InsufficientData e)
   \<and> (\<exists>e. ReadInt32Array \<lparr>bytes = (\<lambda>a. if 100 \<le> a \<and> a < 108 then word_of_int (a - 99) else 0), byte_order = LittleEndian\<rparr> \<lparr>mem = \<lparr>Data = 100, Length = 8, PointerLong = 7\<rparr>, data = 100, len = 8, pos = 4\<rparr> 5 = Some (Inl e, \<lparr>mem = \<lparr>Data = 100, Length = 8, PointerLong = 7\<rparr>, data = 100, len = 8, pos = 4\<rparr>) \<and> InsufficientData e)
   \<and> (\<exists>e. ReadInt64Array \<lparr>bytes = (\<lambda>a. if 100 \<le> a \<and> a < 108 then word_of_int (a - 99) else 0), byte_order = LittleEndian\<rparr> \<lparr>mem = \<lparr>Data = 100, Length = 8, PointerLong = 7\<rparr>, data = 100, len = 8, pos = 4\<rparr> 5 = Some (Inl e, \<lparr>mem = \<lparr>Data = 100, Length = 8, PointerLong = 7\<rparr>, data = 100, len = 8, pos = 4\<rparr>) \<and> InsufficientData e)
   \<and> (\<exists>e. ReadFloatArray \<lparr>bytes = (\<lambda>a. if 100 \<le> a \<and> a < 108 then word_of_int (a - 99) else 0), byte_order = LittleEndian\<rparr> \<lparr>mem = \<lparr>Data = 100, Length = 8, PointerLong = 7\<rparr>, data = 100, len = 8, pos = 4\<rparr> 5 = Some (Inl e, \<lparr>mem = \<lparr>Data = 100, Length = 8, PointerLong = 7\<rparr>, data = 100, len = 8, pos = 4\<rparr>) \<and> InsufficientData e)
   \<and> (\<exists>e. ReadDoubleArray \<lparr>bytes = (\<lambda>a. if 100 \<le> a \<and> a < 108 then word_of_int (a - 99) else 0), byte_order = LittleEndian\<rparr> \<lparr>mem = \<lparr>Data = 100, Length = 8, PointerLong = 7\<rparr>, data = 100, len = 8, pos = 4\<rparr> 5 = Some (Inl e, \<lparr>mem = \<lparr>Data = 100, Length = 8, PointerLong = 7\<rparr>, data = 100, len = 8, pos = 4\<rparr>) \<and> InsufficientData e)
   \<and> (\<exists>e s'. ReadBoolArray \<lparr>bytes = (\<lambda>a. if 100 \<le> a \<and> a < 108 then word_of_int (a - 99) else 0), byte_order = LittleEndian\<rparr> \<lparr>mem = \<lparr>Data = 100, Length = 8, PointerLong = 7\<rparr>, data = 100, len = 8, pos = 4\<rparr> 5 = (Inl e, s') \<and> InsufficientData e)"
  using array_read_insufficient [where n = 5 and s = "\<lparr>mem = \<lparr>Data = 100, Length = 8, PointerLong = 7\<rparr>, data = 100, len = 8, pos = 4\<rparr>" and m = "\<lparr>bytes = (\<lambda>a. if 100 \<le> a \<and> a < 108 then word_of_int (a - 99) else 0), byte_order = LittleEndian\<rparr>"]
  by simp

text \<open>
  Against C5 as it is stated. With two bytes left, a read of three booleans fails with
  the not-enough-data error, thrown by the third \<^verbatim>\<open>ReadBool\<close>, after the first two have
  moved the position from 3 to 5. With eight bytes left, a read of \<open>2 ^ 29\<close> elements of
  8 bytes, \<open>2 ^ 32\<close> bytes in all, does not fail.
\<close>

theorem array_read_insufficient_counterexample:
  "sint (len \<lparr>mem = \<lparr>Data = 100, Length = 8, PointerLong = 7\<rparr>, data = 100, len = 5, pos = 3\<rparr> - pos \<lparr>mem = \<lparr>Data = 100, Length = 8, PointerLong = 7\<rparr>, data = 100, len = 5, pos = 3\<rparr>) < 3
   \<and> ReadBoolArray \<lparr>bytes = (\<lambda>a. if a = 100 then 1 else if a = 101 then 0 else if a = 102 then 1 else if a = 103 then 2 else if a = 104 then 0xFF else 0), byte_order = BigEndian\<rparr> \<lparr>mem = \<lparr>Data = 100, Length = 8, PointerLong = 7\<rparr>, data = 100, len = 5, pos = 3\<rparr> 3 =
       (Inl (IgniteError IGNITE_ERR_MEMORY ''Not enough data in the stream''
          [(''memPtr'', 7), (''len'', 5), (''pos'', 5), (''requested'', 1)]), \<lparr>mem = \<lparr>Data = 100, Length = 8, PointerLong = 7\<rparr>, data = 100, len = 5, pos = 5\<rparr>)
   \<and> sint (len \<lparr>mem = \<lparr>Data = 100, Length = 8, PointerLong = 7\<rparr>, data = 100, len = 8, pos = 0\<rparr> - pos \<lparr>mem = \<lparr>Data = 100, Length = 8, PointerLong = 7\<rparr>, data = 100, len = 8, pos = 0\<rparr>) < 2 ^ 29 * 8
   \<and> ReadInt64Array \<lparr>bytes = (\<lambda>a. if 100 \<le> a \<and> a < 108 then word_of_int (a - 99) else 0), byte_order = LittleEndian\<rparr> \<lparr>mem = \<lparr>Data = 100, Length = 8, PointerLong = 7\<rparr>, data = 100, len = 8, pos = 0\<rparr> (2 ^ 29) = Some (Inr [], \<lparr>mem = \<lparr>Data = 100, Length = 8, PointerLong = 7\<rparr>, data = 100, len = 8, pos = 0\<rparr>)"
  by (simp add: ReadBoolArray_def ReadBool_def ReadInt8_def IGNITE_INTEROP_IN_READ_def
      EnsureEnoughData_def Shift_def ReadBoolArray_loop_numeral ReadInt64Array_def
      IGNITE_INTEROP_IN_READ_ARRAY_def CopyAndShift_def memcpy_def)

subsection \<open>The position stays within the bounds\<close>

lemma in_bounds_advance:
  assumes "position_in_bounds s" "0 \<le> sint b" "sint b \<le> sint (len s - pos s)"
  shows "position_in_bounds (s\<lparr>pos := pos s + b\<rparr>)"
proof -
  have r: "sint b \<le> sint (len s) - sint (pos s)"
    using assms(1,3) by (simp add: in_bounds_remaining)
  have "sint (pos s + b) = sint (pos s) + sint b"
    using assms(1,2) r sint32_range [of "len s"]
    by (intro sint32_add_exact) (simp_all add: position_in_bounds_def)
  then show ?thesis
    using assms(1,2) r by (simp add: position_in_bounds_def)
qed

lemma IN_READ_in_bounds:
  assumes "position_in_bounds s" "0 \<le> sint l"
  shows "position_in_bounds (snd (IGNITE_INTEROP_IN_READ m s l))"
proof (cases "sint l \<le> sint (len s - pos s)")
  case True
  then show ?thesis
    using assms by (simp add: IN_READ_ok in_bounds_advance)
next
  case False
  then show ?thesis
    using assms(1) by (simp add: IGNITE_INTEROP_IN_READ_def EnsureEnoughData_def)
qed

lemma CopyAndShift_in_bounds:
  assumes "position_in_bounds s" "CopyAndShift m s b = Some (r, s')"
  shows "position_in_bounds s'"
proof (cases "sint b \<le> sint (len s - pos s)")
  case True
  show ?thesis
  proof (cases "0 \<le> sint b")
    case True
    with \<open>sint b \<le> sint (len s - pos s)\<close> assms show ?thesis
      by (auto simp add: CopyAndShift_ok in_bounds_advance)
  next
    case False
    with \<open>sint b \<le> sint (len s - pos s)\<close> assms(2) show ?thesis
      by (simp add: CopyAndShift_negative)
  qed
next
  case False
  then show ?thesis
    using assms by (auto simp add: CopyAndShift_def EnsureEnoughData_def)
qed

lemma ReadBool_in_bounds:
  assumes "position_in_bounds s"
  shows "position_in_bounds (snd (ReadBool m s))"
proof -
  have "snd (ReadBool m s) = snd (ReadInt8 m s)"
    by (simp add: ReadBool_def split: prod.split sum.split)
  then show ?thesis
    using IN_READ_in_bounds [OF assms, of 1 m, where 'a = 8] by (simp add: ReadInt8_def)
qed

lemma ReadBoolArray_loop_in_bounds:
  "position_in_bounds s \<Longrightarrow> position_in_bounds (snd (ReadBoolArray_loop m n s))"
proof (induction n arbitrary: s)
  case 0
  then show ?case by simp
next
  case (Suc n)
  have b: "position_in_bounds (snd (ReadBool m s))"
    using Suc.prems by (rule ReadBool_in_bounds)
  show ?case
  proof (cases "ReadBool m s")
    case (Pair r s')
    then have s': "position_in_bounds s'" using b by simp
    show ?thesis
    proof (cases r)
      case (Inl e)
      then show ?thesis using Pair s' by simp
    next
      case (Inr v)
      then show ?thesis
        using Pair Suc.IH [OF s'] by (auto split: prod.split sum.split)
    qed
  qed
qed

lemma array_read_in_bounds:
  assumes "ReadArray m s n = IGNITE_INTEROP_IN_READ_ARRAY m s n shift"
    and "position_in_bounds s"
  shows "\<forall>r s'. ReadArray m s n = Some (r, s') \<longrightarrow> position_in_bounds s'"
  unfolding assms(1) array_read_wrapped using assms(2) CopyAndShift_in_bounds by blast

text \<open>
  C3, as the code has it. The position is within the bounds, \<open>0 \<le> pos \<le> len\<close>, after
  a construction with a length that is not negative. From a stream within its bounds,
  every sequential read and every read of a boolean array leaves the stream within its
  bounds, whether it fails or not; a positional read leaves the stream as it was; every
  bulk array read that returns or throws leaves the stream within its bounds;
  \<^verbatim>\<open>Position(p)\<close> does so when \<open>p\<close> is not negative, and \<^verbatim>\<open>Synchronize\<close> when the new
  length of the owner is at least the position.
\<close>

theorem position_in_bounds_preserved:
  "(0 \<le> sint (Length mm) \<longrightarrow> position_in_bounds (new_InteropInputStream mm))
   \<and> (0 \<le> sint l \<and> sint l \<le> sint (Length mm) \<longrightarrow>
        (\<exists>s'. new_InteropInputStream_len mm l = Inr s' \<and> position_in_bounds s'))
   \<and> (position_in_bounds s \<longrightarrow>
        position_in_bounds (snd (ReadInt8 m s))
      \<and> position_in_bounds (snd (ReadInt16 m s))
      \<and> position_in_bounds (snd (ReadUInt16 m s))
      \<and> position_in_bounds (snd (ReadInt32 m s))
      \<and> position_in_bounds (snd (ReadInt64 m s))
      \<and> position_in_bounds (snd (ReadFloat m s))
      \<and> position_in_bounds (snd (ReadDouble m s))
      \<and> position_in_bounds (snd (ReadBool m s))
      \<and> position_in_bounds (snd (ReadBoolArray m s n))
      \<and> snd (ReadInt8_at m s p) = s
      \<and> snd (ReadInt16_at m s p) = s
      \<and> snd (ReadInt32_at m s p) = s
      \<and> (\<forall>ReadArray \<in> set [ReadInt8Array, ReadInt16Array, ReadUInt16Array,
            ReadInt32Array, ReadInt64Array, ReadFloatArray, ReadDoubleArray].
           \<forall>r s'. ReadArray m s n = Some (r, s') \<longrightarrow> position_in_bounds s')
      \<and> (0 \<le> sint p \<longrightarrow> position_in_bounds (snd (Position_set s p)))
      \<and> (sint (pos s) \<le> sint (Length (mem s)) \<longrightarrow> position_in_bounds (Synchronize s)))"
proof (intro conjI impI)
  assume "0 \<le> sint (Length mm)"
  then show "position_in_bounds (new_InteropInputStream mm)"
    by (simp add: new_InteropInputStream_def position_in_bounds_def)
next
  assume "0 \<le> sint l \<and> sint l \<le> sint (Length mm)"
  then show "\<exists>s'. new_InteropInputStream_len mm l = Inr s' \<and> position_in_bounds s'"
    by (simp add: new_InteropInputStream_len_def position_in_bounds_def)
next
  assume s: "position_in_bounds s"
  show "position_in_bounds (snd (ReadInt8 m s))"
    using IN_READ_in_bounds [OF s, of 1 m, where 'a = 8] by (simp add: ReadInt8_def)
  show "position_in_bounds (snd (ReadInt16 m s))"
    using IN_READ_in_bounds [OF s, of 2 m, where 'a = 16] by (simp add: ReadInt16_def)
  show "position_in_bounds (snd (ReadUInt16 m s))"
    using IN_READ_in_bounds [OF s, of 2 m, where 'a = 16] by (simp add: ReadUInt16_def)
  show "position_in_bounds (snd (ReadInt32 m s))"
    using IN_READ_in_bounds [OF s, of 4 m, where 'a = 32] by (simp add: ReadInt32_def)
  show "position_in_bounds (snd (ReadInt64 m s))"
    using IN_READ_in_bounds [OF s, of 8 m, where 'a = 64] by (simp add: ReadInt64_def)
  show "position_in_bounds (snd (ReadFloat m s))"
    using IN_READ_in_bounds [OF s, of 4 m, where 'a = 32]
    by (simp add: ReadFloat_def ReadInt32_def)
  show "position_in_bounds (snd (ReadDouble m s))"
    using IN_READ_in_bounds [OF s, of 8 m, where 'a = 64]
    by (simp add: ReadDouble_def ReadInt64_def)
  show "position_in_bounds (snd (ReadBool m s))"
    using s by (rule ReadBool_in_bounds)
  show "position_in_bounds (snd (ReadBoolArray m s n))"
    unfolding ReadBoolArray_def using s by (rule ReadBoolArray_loop_in_bounds)
  show "snd (ReadInt8_at m s p) = s"
    by (simp add: ReadInt8_at_def Let_def split: sum.split)
  show "snd (ReadInt16_at m s p) = s"
    by (simp add: ReadInt16_at_def Let_def split: sum.split)
  show "snd (ReadInt32_at m s p) = s"
    by (simp add: ReadInt32_at_def Let_def split: sum.split)
  show "\<forall>ReadArray \<in> set [ReadInt8Array, ReadInt16Array, ReadUInt16Array,
            ReadInt32Array, ReadInt64Array, ReadFloatArray, ReadDoubleArray].
           \<forall>r s'. ReadArray m s n = Some (r, s') \<longrightarrow> position_in_bounds s'"
    using array_read_in_bounds [where ReadArray = ReadInt8Array and shift = 0 and m = m and s = s
        and n = n, OF ReadInt8Array_def s]
      array_read_in_bounds [where ReadArray = ReadInt16Array and shift = 1 and m = m and s = s
        and n = n, OF ReadInt16Array_def s]
      array_read_in_bounds [where ReadArray = ReadUInt16Array and shift = 1 and m = m and s = s
        and n = n, OF ReadUInt16Array_def s]
      array_read_in_bounds [where ReadArray = ReadInt32Array and shift = 2 and m = m and s = s
        and n = n, OF ReadInt32Array_def s]
      array_read_in_bounds [where ReadArray = ReadInt64Array and shift = 3 and m = m and s = s
        and n = n, OF ReadInt64Array_def s]
      array_read_in_bounds [where ReadArray = ReadFloatArray and shift = 2 and m = m and s = s
        and n = n, OF ReadFloatArray_def s]
      array_read_in_bounds [where ReadArray = ReadDoubleArray and shift = 3 and m = m and s = s
        and n = n, OF ReadDoubleArray_def s]
    by (simp only: list.set ball_simps)
  show "position_in_bounds (snd (Position_set s p))" if "0 \<le> sint p"
    using s that by (simp add: Position_set_def position_in_bounds_def)
  show "position_in_bounds (Synchronize s)" if "sint (pos s) \<le> sint (Length (mem s))"
    using s that by (simp add: Synchronize_def position_in_bounds_def)
qed

theorem position_in_bounds_preserved_witness:
  "position_in_bounds (new_InteropInputStream \<lparr>Data = 100, Length = 8, PointerLong = 7\<rparr>)
   \<and> (\<exists>s'. new_InteropInputStream_len \<lparr>Data = 100, Length = 8, PointerLong = 7\<rparr> 5 = Inr s' \<and> position_in_bounds s')
   \<and> position_in_bounds \<lparr>mem = \<lparr>Data = 100, Length = 8, PointerLong = 7\<rparr>, data = 100, len = 8, pos = 0\<rparr>
   \<and> position_in_bounds (snd (ReadInt8 \<lparr>bytes = (\<lambda>a. if 100 \<le> a \<and> a < 108 then word_of_int (a - 99) else 0), byte_order = LittleEndian\<rparr> \<lparr>mem = \<lparr>Data = 100, Length = 8, PointerLong = 7\<rparr>, data = 100, len = 8, pos = 0\<rparr>))
   \<and> position_in_bounds (snd (ReadInt16 \<lparr>bytes = (\<lambda>a. if 100 \<le> a \<and> a < 108 then word_of_int (a - 99) else 0), byte_order = LittleEndian\<rparr> \<lparr>mem = \<lparr>Data = 100, Length = 8, PointerLong = 7\<rparr>, data = 100, len = 8, pos = 0\<rparr>))
   \<and> position_in_bounds (snd (ReadUInt16 \<lparr>bytes = (\<lambda>a. if 100 \<le> a \<and> a < 108 then word_of_int (a - 99) else 0), byte_order = LittleEndian\<rparr> \<lparr>mem = \<lparr>Data = 100, Length = 8, PointerLong = 7\<rparr>, data = 100, len = 8, pos = 0\<rparr>))
   \<and> position_in_bounds (snd (ReadInt32 \<lparr>bytes = (\<lambda>a. if 100 \<le> a \<and> a < 108 then word_of_int (a - 99) else 0), byte_order = LittleEndian\<rparr> \<lparr>mem = \<lparr>Data = 100, Length = 8, PointerLong = 7\<rparr>, data = 100, len = 8, pos = 0\<rparr>))
   \<and> position_in_bounds (snd (ReadInt64 \<lparr>bytes = (\<lambda>a. if 100 \<le> a \<and> a < 108 then word_of_int (a - 99) else 0), byte_order = LittleEndian\<rparr> \<lparr>mem = \<lparr>Data = 100, Length = 8, PointerLong = 7\<rparr>, data = 100, len = 8, pos = 0\<rparr>))
   \<and> position_in_bounds (snd (ReadFloat \<lparr>bytes = (\<lambda>a. if 100 \<le> a \<and> a < 108 then word_of_int (a - 99) else 0), byte_order = LittleEndian\<rparr> \<lparr>mem = \<lparr>Data = 100, Length = 8, PointerLong = 7\<rparr>, data = 100, len = 8, pos = 0\<rparr>))
   \<and> position_in_bounds (snd (ReadDouble \<lparr>bytes = (\<lambda>a. if 100 \<le> a \<and> a < 108 then word_of_int (a - 99) else 0), byte_order = LittleEndian\<rparr> \<lparr>mem = \<lparr>Data = 100, Length = 8, PointerLong = 7\<rparr>, data = 100, len = 8, pos = 0\<rparr>))
   \<and> position_in_bounds (snd (ReadBool \<lparr>bytes = (\<lambda>a. if 100 \<le> a \<and> a < 108 then word_of_int (a - 99) else 0), byte_order = LittleEndian\<rparr> \<lparr>mem = \<lparr>Data = 100, Length = 8, PointerLong = 7\<rparr>, data = 100, len = 8, pos = 0\<rparr>))
   \<and> position_in_bounds (snd (ReadBoolArray \<lparr>bytes = (\<lambda>a. if 100 \<le> a \<and> a < 108 then word_of_int (a - 99) else 0), byte_order = LittleEndian\<rparr> \<lparr>mem = \<lparr>Data = 100, Length = 8, PointerLong = 7\<rparr>, data = 100, len = 8, pos = 0\<rparr> 1))
   \<and> snd (ReadInt8_at \<lparr>bytes = (\<lambda>a. if 100 \<le> a \<and> a < 108 then word_of_int (a - 99) else 0), byte_order = LittleEndian\<rparr> \<lparr>mem = \<lparr>Data = 100, Length = 8, PointerLong = 7\<rparr>, data = 100, len = 8, pos = 0\<rparr> 2) = \<lparr>mem = \<lparr>Data = 100, Length = 8, PointerLong = 7\<rparr>, data = 100, len = 8, pos = 0\<rparr>
   \<and> snd (ReadInt16_at \<lparr>bytes = (\<lambda>a. if 100 \<le> a \<and> a < 108 then word_of_int (a - 99) else 0), byte_order = LittleEndian\<rparr> \<lparr>mem = \<lparr>Data = 100, Length = 8, PointerLong = 7\<rparr>, data = 100, len = 8, pos = 0\<rparr> 2) = \<lparr>mem = \<lparr>Data = 100, Length = 8, PointerLong = 7\<rparr>, data = 100, len = 8, pos = 0\<rparr>
   \<and> snd (ReadInt32_at \<lparr>bytes = (\<lambda>a. if 100 \<le> a \<and> a < 108 then word_of_int (a - 99) else 0), byte_order = LittleEndian\<rparr> \<lparr>mem = \<lparr>Data = 100, Length = 8, PointerLong = 7\<rparr>, data = 100, len = 8, pos = 0\<rparr> 2) = \<lparr>mem = \<lparr>Data = 100, Length = 8, PointerLong = 7\<rparr>, data = 100, len = 8, pos = 0\<rparr>
   \<and> ReadInt8Array \<lparr>bytes = (\<lambda>a. if 100 \<le> a \<and> a < 108 then word_of_int (a - 99) else 0), byte_order = LittleEndian\<rparr> \<lparr>mem = \<lparr>Data = 100, Length = 8, PointerLong = 7\<rparr>, data = 100, len = 8, pos = 0\<rparr> 1 = Some (Inr [1], \<lparr>mem = \<lparr>Data = 100, Length = 8, PointerLong = 7\<rparr>, data = 100, len = 8, pos = 1\<rparr>) \<and> position_in_bounds \<lparr>mem = \<lparr>Data = 100, Length = 8, PointerLong = 7\<rparr>, data = 100, len = 8, pos = 1\<rparr>
   \<and> ReadInt16Array \<lparr>bytes = (\<lambda>a. if 100 \<le> a \<and> a < 108 then word_of_int (a - 99) else 0), byte_order = LittleEndian\<rparr> \<lparr>mem = \<lparr>Data = 100, Length = 8, PointerLong = 7\<rparr>, data = 100, len = 8, pos = 0\<rparr> 1 = Some (Inr [1, 2], \<lparr>mem = \<lparr>Data = 100, Length = 8, PointerLong = 7\<rparr>, data = 100, len = 8, pos = 2\<rparr>) \<and> position_in_bounds \<lparr>mem = \<lparr>Data = 100, Length = 8, PointerLong = 7\<rparr>, data = 100, len = 8, pos = 2\<rparr>
   \<and> ReadUInt16Array \<lparr>bytes = (\<lambda>a. if 100 \<le> a \<and> a < 108 then word_of_int (a - 99) else 0), byte_order = LittleEndian\<rparr> \<lparr>mem = \<lparr>Data = 100, Length = 8, PointerLong = 7\<rparr>, data = 100, len = 8, pos = 0\<rparr> 1 = Some (Inr [1, 2], \<lparr>mem = \<lparr>Data = 100, Length = 8, PointerLong = 7\<rparr>, data = 100, len = 8, pos = 2\<rparr>) \<and> position_in_bounds \<lparr>mem = \<lparr>Data = 100, Length = 8, PointerLong = 7\<rparr>, data = 100, len = 8, pos = 2\<rparr>
   \<and> ReadInt32Array \<lparr>bytes = (\<lambda>a. if 100 \<le> a \<and> a < 108 then word_of_int (a - 99) else 0), byte_order = LittleEndian\<rparr> \<lparr>mem = \<lparr>Data = 100, Length = 8, PointerLong = 7\<rparr>, data = 100, len = 8, pos = 0\<rparr> 1 = Some (Inr [1, 2, 3, 4], \<lparr>mem = \<lparr>Data = 100, Length = 8, PointerLong = 7\<rparr>, data = 100, len = 8, pos = 4\<rparr>) \<and> position_in_bounds \<lparr>mem = \<lparr>Data = 100, Length = 8, PointerLong = 7\<rparr>, data = 100, len = 8, pos = 4\<rparr>
   \<and> ReadInt64Array \<lparr>bytes = (\<lambda>a. if 100 \<le> a \<and> a < 108 then word_of_int (a - 99) else 0), byte_order = LittleEndian\<rparr> \<lparr>mem = \<lparr>Data = 100, Length = 8, PointerLong = 7\<rparr>, data = 100, len = 8, pos = 0\<rparr> 1 = Some (Inr [1, 2, 3, 4, 5, 6, 7, 8], \<lparr>mem = \<lparr>Data = 100, Length = 8, PointerLong = 7\<rparr>, data = 100, len = 8, pos = 8\<rparr>) \<and> position_in_bounds \<lparr>mem = \<lparr>Data = 100, Length = 8, PointerLong = 7\<rparr>, data = 100, len = 8, pos = 8\<rparr>
   \<and> ReadFloatArray \<lparr>bytes = (\<lambda>a. if 100 \<le> a \<and> a < 108 then word_of_int (a - 99) else 0), byte_order = LittleEndian\<rparr> \<lparr>mem = \<lparr>Data = 100, Length = 8, PointerLong = 7\<rparr>, data = 100, len = 8, pos = 0\<rparr> 1 = Some (Inr [1, 2, 3, 4], \<lparr>mem = \<lparr>Data = 100, Length = 8, PointerLong = 7\<rparr>, data = 100, len = 8, pos = 4\<rparr>) \<and> position_in_bounds \<lparr>mem = \<lparr>Data = 100, Length = 8, PointerLong = 7\<rparr>, data = 100, len = 8, pos = 4\<rparr>
   \<and> ReadDoubleArray \<lparr>bytes = (\<lambda>a. if 100 \<le> a \<and> a < 108 then word_of_int (a - 99) else 0), byte_order = LittleEndian\<rparr> \<lparr>mem = \<lparr>Data = 100, Length = 8, PointerLong = 7\<rparr>, data = 100, len = 8, pos = 0\<rparr> 1 = Some (Inr [1, 2, 3, 4, 5, 6, 7, 8], \<lparr>mem = \<lparr>Data = 100, Length = 8, PointerLong = 7\<rparr>, data = 100, len = 8, pos = 8\<rparr>) \<and> position_in_bounds \<lparr>mem = \<lparr>Data = 100, Length = 8, PointerLong = 7\<rparr>, data = 100, len = 8, pos = 8\<rparr>
   \<and> position_in_bounds (snd (Position_set \<lparr>mem = \<lparr>Data = 100, Length = 8, PointerLong = 7\<rparr>, data = 100, len = 8, pos = 0\<rparr> 2))
   \<and> position_in_bounds (Synchronize \<lparr>mem = \<lparr>Data = 100, Length = 8, PointerLong = 7\<rparr>, data = 100, len = 8, pos = 0\<rparr>)"
proof -
  have s: "position_in_bounds \<lparr>mem = \<lparr>Data = 100, Length = 8, PointerLong = 7\<rparr>, data = 100, len = 8, pos = 0\<rparr>"
    by (simp add: position_in_bounds_def)
  have r:
    "ReadInt8Array \<lparr>bytes = (\<lambda>a. if 100 \<le> a \<and> a < 108 then word_of_int (a - 99) else 0), byte_order = LittleEndian\<rparr> \<lparr>mem = \<lparr>Data = 100, Length = 8, PointerLong = 7\<rparr>, data = 100, len = 8, pos = 0\<rparr> 1 = Some (Inr [1], \<lparr>mem = \<lparr>Data = 100, Length = 8, PointerLong = 7\<rparr>, data = 100, len = 8, pos = 1\<rparr>)"
    "ReadInt16Array \<lparr>bytes = (\<lambda>a. if 100 \<le> a \<and> a < 108 then word_of_int (a - 99) else 0), byte_order = LittleEndian\<rparr> \<lparr>mem = \<lparr>Data = 100, Length = 8, PointerLong = 7\<rparr>, data = 100, len = 8, pos = 0\<rparr> 1 = Some (Inr [1, 2], \<lparr>mem = \<lparr>Data = 100, Length = 8, PointerLong = 7\<rparr>, data = 100, len = 8, pos = 2\<rparr>)"
    "ReadUInt16Array \<lparr>bytes = (\<lambda>a. if 100 \<le> a \<and> a < 108 then word_of_int (a - 99) else 0), byte_order = LittleEndian\<rparr> \<lparr>mem = \<lparr>Data = 100, Length = 8, PointerLong = 7\<rparr>, data = 100, len = 8, pos = 0\<rparr> 1 = Some (Inr [1, 2], \<lparr>mem = \<lparr>Data = 100, Length = 8, PointerLong = 7\<rparr>, data = 100, len = 8, pos = 2\<rparr>)"
    "ReadInt32Array \<lparr>bytes = (\<lambda>a. if 100 \<le> a \<and> a < 108 then word_of_int (a - 99) else 0), byte_order = LittleEndian\<rparr> \<lparr>mem = \<lparr>Data = 100, Length = 8, PointerLong = 7\<rparr>, data = 100, len = 8, pos = 0\<rparr> 1 = Some (Inr [1, 2, 3, 4], \<lparr>mem = \<lparr>Data = 100, Length = 8, PointerLong = 7\<rparr>, data = 100, len = 8, pos = 4\<rparr>)"
    "ReadInt64Array \<lparr>bytes = (\<lambda>a. if 100 \<le> a \<and> a < 108 then word_of_int (a - 99) else 0), byte_order = LittleEndian\<rparr> \<lparr>mem = \<lparr>Data = 100, Length = 8, PointerLong = 7\<rparr>, data = 100, len = 8, pos = 0\<rparr> 1 = Some (Inr [1, 2, 3, 4, 5, 6, 7, 8], \<lparr>mem = \<lparr>Data = 100, Length = 8, PointerLong = 7\<rparr>, data = 100, len = 8, pos = 8\<rparr>)"
    "ReadFloatArray \<lparr>bytes = (\<lambda>a. if 100 \<le> a \<and> a < 108 then word_of_int (a - 99) else 0), byte_order = LittleEndian\<rparr> \<lparr>mem = \<lparr>Data = 100, Length = 8, PointerLong = 7\<rparr>, data = 100, len = 8, pos = 0\<rparr> 1 = Some (Inr [1, 2, 3, 4], \<lparr>mem = \<lparr>Data = 100, Length = 8, PointerLong = 7\<rparr>, data = 100, len = 8, pos = 4\<rparr>)"
    "ReadDoubleArray \<lparr>bytes = (\<lambda>a. if 100 \<le> a \<and> a < 108 then word_of_int (a - 99) else 0), byte_order = LittleEndian\<rparr> \<lparr>mem = \<lparr>Data = 100, Length = 8, PointerLong = 7\<rparr>, data = 100, len = 8, pos = 0\<rparr> 1 = Some (Inr [1, 2, 3, 4, 5, 6, 7, 8], \<lparr>mem = \<lparr>Data = 100, Length = 8, PointerLong = 7\<rparr>, data = 100, len = 8, pos = 8\<rparr>)"
    by (simp_all add: ReadInt8Array_def ReadInt16Array_def ReadUInt16Array_def
        ReadInt32Array_def ReadInt64Array_def ReadFloatArray_def ReadDoubleArray_def
        IGNITE_INTEROP_IN_READ_ARRAY_def CopyAndShift_def EnsureEnoughData_def Shift_def
        memcpy_def upt_sizes)
  show ?thesis
    using s position_in_bounds_preserved [where mm = "\<lparr>Data = 100, Length = 8, PointerLong = 7\<rparr>"
        and l = 5 and s = "\<lparr>mem = \<lparr>Data = 100, Length = 8, PointerLong = 7\<rparr>, data = 100, len = 8, pos = 0\<rparr>" and m = "\<lparr>bytes = (\<lambda>a. if 100 \<le> a \<and> a < 108 then word_of_int (a - 99) else 0), byte_order = LittleEndian\<rparr>" and n = 1 and p = 2]
    by (simp add: r)
qed

text \<open>
  Against C3 as it is stated. From a stream within its bounds, \<^verbatim>\<open>Position(-1)\<close>
  succeeds and leaves a negative position; \<^verbatim>\<open>Synchronize\<close>, when the owner has
  shrunk to 2 bytes, leaves the position 4 above the length; and the constructor accepts
  the length \<open>- 1\<close>, below the position 0.
\<close>

theorem position_in_bounds_preserved_counterexample:
  "position_in_bounds \<lparr>mem = \<lparr>Data = 100, Length = 8, PointerLong = 7\<rparr>, data = 100, len = 8, pos = 4\<rparr>
   \<and> fst (Position_set \<lparr>mem = \<lparr>Data = 100, Length = 8, PointerLong = 7\<rparr>, data = 100, len = 8, pos = 4\<rparr> (- 1)) = Inr ()
   \<and> \<not> position_in_bounds (snd (Position_set \<lparr>mem = \<lparr>Data = 100, Length = 8, PointerLong = 7\<rparr>, data = 100, len = 8, pos = 4\<rparr> (- 1)))
   \<and> position_in_bounds \<lparr>mem = \<lparr>Data = 100, Length = 2, PointerLong = 7\<rparr>, data = 100, len = 8, pos = 4\<rparr>
   \<and> \<not> position_in_bounds (Synchronize \<lparr>mem = \<lparr>Data = 100, Length = 2, PointerLong = 7\<rparr>, data = 100, len = 8, pos = 4\<rparr>)
   \<and> new_InteropInputStream_len \<lparr>Data = 100, Length = 8, PointerLong = 7\<rparr> (- 1) = Inr \<lparr>mem = \<lparr>Data = 100, Length = 8, PointerLong = 7\<rparr>, data = 100, len = - 1, pos = 0\<rparr>
   \<and> \<not> position_in_bounds \<lparr>mem = \<lparr>Data = 100, Length = 8, PointerLong = 7\<rparr>, data = 100, len = - 1, pos = 0\<rparr>"
  by (simp add: position_in_bounds_def Position_set_def Synchronize_def
      new_InteropInputStream_len_def)

end
